theory Spec2Isabelle
  imports Main "HOL-Library.AList" "HOL-Library.Char_ord" "HOL-Library.List_Lexorder"
    "HOL-Library.Sublist"
begin

section \<open>Python values: errors and dictionaries\<close>

text \<open>
  The exceptions the script can raise and never catches. A raised exception ends the
  run, so a function that may raise returns \<open>error + 'a\<close> with \<open>Inl\<close> the exception.
\<close>

datatype error =
    KeyError string
  | NameError string
  | TypeError string
  | AttributeError string
  | IndexError
  | JSONDecodeError

definition and_then :: "'e + 'a \<Rightarrow> ('a \<Rightarrow> 'e + 'b) \<Rightarrow> 'e + 'b" where
  "and_then m f = (case m of Inl e \<Rightarrow> Inl e | Inr x \<Rightarrow> f x)"

text \<open>A \<open>for\<close> loop whose body may raise: the first exception leaves the loop.\<close>

fun for_each :: "('s \<Rightarrow> 'a \<Rightarrow> 'e + 's) \<Rightarrow> 'a list \<Rightarrow> 's \<Rightarrow> 'e + 's" where
  "for_each f [] s = Inr s"
| "for_each f (x # xs) s = (case f s x of Inl e \<Rightarrow> Inl e | Inr s' \<Rightarrow> for_each f xs s')"

text \<open>
  A Python \<open>dict\<close> keeps its keys in insertion order and the report iterates over
  several of them, so a dictionary is an association list: \<open>d[k] = v\<close> is
  \<open>AList.update\<close> (replace in place, or append), \<open>d[k]\<close> raises \<open>KeyError\<close> on a
  missing key, and \<open>d[k] += n\<close> reads before it writes.
\<close>

type_synonym ('k, 'v) dict = "('k \<times> 'v) list"

definition getitem :: "(string, 'v) dict \<Rightarrow> string \<Rightarrow> error + 'v" where
  "getitem d k = (case map_of d k of None \<Rightarrow> Inl (KeyError k) | Some v \<Rightarrow> Inr v)"

definition iadd :: "(string, int) dict \<Rightarrow> string \<Rightarrow> int \<Rightarrow> error + (string, int) dict" where
  "iadd d k n =
     (case map_of d k of None \<Rightarrow> Inl (KeyError k) | Some c \<Rightarrow> Inr (AList.update k (c + n) d))"

definition setdefault :: "string \<Rightarrow> 'v \<Rightarrow> (string, 'v) dict \<Rightarrow> (string, 'v) dict" where
  "setdefault k v d = (case map_of d k of None \<Rightarrow> d @ [(k, v)] | Some _ \<Rightarrow> d)"

section \<open>The collected data\<close>

text \<open>
  One element of the policies file, with the fields \<open>process_policies\<close> reads.
  \<open>policyUpi\<close>, \<open>openAlertsCount\<close> and \<open>complianceMetadata\<close> may be absent;
  \<open>p_complianceMetadata\<close> holds the \<open>standardName\<close> of each entry.
\<close>

record policy =
  p_policyId :: string
  p_name :: string
  p_enabled :: bool
  p_severity :: string
  p_policyType :: string
  p_policySubTypes :: "string list"
  p_remediable :: bool
  p_systemDefault :: bool
  p_policyUpi :: "string option"
  p_openAlertsCount :: "int option"
  p_complianceMetadata :: "string list option"

text \<open>
  One element of the alerts file of the full API: the fields of its \<open>policy\<close> object,
  its \<open>status\<close> and its optional \<open>reason\<close>.
\<close>

record alert =
  a_policyId :: string
  a_systemDefault :: bool
  a_policyType :: string
  a_remediable :: bool
  a_status :: string
  a_reason :: "string option"

text \<open>
  The alerts file of the support API: four lists of \<open>(name, alerts)\<close> items, one per
  \<open>groupBy\<close> field.
\<close>

record aggregate_file =
  by_policy :: "(string \<times> int) list"
  by_policy_type :: "(string \<times> int) list"
  by_policy_severity :: "(string \<times> int) list"
  by_alert_status :: "(string \<times> int) list"

datatype alerts_file = AlertsList "alert list" | AlertsDict aggregate_file

record data =
  ASSETS :: int
  POLICIES :: "policy list"
  ALERTS :: alerts_file

section \<open>The results\<close>

text \<open>The value of \<open>RESULTS['policies'][policyId]\<close>.\<close>

record policy_info =
  policyName :: string
  policyEnabled :: bool
  policySeverity :: string
  policyType :: string
  policyShiftable :: bool
  policyRemediable :: bool
  policySystemDefault :: bool
  policyUpi :: string
  alertCount :: int
  complianceStandards :: "string list"

text \<open>The value of \<open>RESULTS['aggregated_alerts_by']\<close>.\<close>

record aggregated =
  agg_policy :: "(string, int) dict"
  agg_type :: "(string, int) dict"
  agg_severity :: "(string, int) dict"
  agg_status :: "(string, int) dict"

text \<open>
  \<open>policy_counts_from_alerts\<close> is seeded with integers and later given one
  \<open>{'policyId', 'alertCount'}\<close> dictionary per policy name, so its values are of two kinds.
\<close>

datatype policy_count = Counter int | PolicyCount string int

text \<open>
  \<open>RESULTS\<close>. The keys \<open>aggregated_alerts_by\<close> and \<open>policies_disabled\<close> are optional:
  the first is assigned in support mode only, the second is never assigned.
\<close>

record results =
  aggregated_alerts_by :: "aggregated option"
  policies_by_name :: "(string, string) dict"
  policies :: "(string, policy_info) dict"
  compliance_standards_counts_from_policies :: "(string, (string, int) dict) dict"
  alert_counts_from_policies :: "(string, int) dict"
  compliance_standards_counts_from_alerts :: "(string, (string, int) dict) dict"
  policy_counts_from_alerts :: "(string, policy_count) dict"
  policy_totals_by_alert :: "(string, int) dict"
  alert_totals_by_alert :: "(string, int) dict"
  policies_deleted :: "(string, int) dict"
  policies_disabled :: "(string, int) dict option"
  summary :: "(string, int) dict"

definition seed_alert_counts_from_policies :: "(string, int) dict" where
  "seed_alert_counts_from_policies =
     [(''open'', 0), (''open_high'', 0), (''open_medium'', 0), (''open_low'', 0),
      (''anomaly'', 0), (''audit_event'', 0), (''config'', 0), (''data'', 0), (''iam'', 0),
      (''network'', 0), (''remediable'', 0), (''shiftable'', 0), (''custom'', 0),
      (''default'', 0)]"

definition seed_policy_counts_from_alerts :: "(string, policy_count) dict" where
  "seed_policy_counts_from_alerts =
     [(''high'', Counter 0), (''medium'', Counter 0), (''low'', Counter 0),
      (''anomaly'', Counter 0), (''audit_event'', Counter 0), (''config'', Counter 0),
      (''data'', Counter 0), (''iam'', Counter 0), (''network'', Counter 0),
      (''custom'', Counter 0), (''default'', Counter 0)]"

definition seed_alert_totals_by_alert :: "(string, int) dict" where
  "seed_alert_totals_by_alert =
     [(''dismissed'', 0), (''dismissed_high'', 0), (''dismissed_medium'', 0),
      (''dismissed_low'', 0), (''open'', 0), (''open_high'', 0), (''open_medium'', 0),
      (''open_low'', 0), (''policy_deleted'', 0), (''policy_disabled'', 0),
      (''resolved'', 0), (''resolved_high'', 0), (''resolved_medium'', 0),
      (''resolved_low'', 0), (''resolved_deleted'', 0), (''resolved_updated'', 0),
      (''remediable'', 0), (''remediable_open'', 0), (''remediable_resolved'', 0),
      (''snoozed'', 0), (''snoozed_high'', 0), (''snoozed_medium'', 0), (''snoozed_low'', 0),
      (''shiftable'', 0), (''anomaly'', 0), (''audit_event'', 0), (''config'', 0),
      (''data'', 0), (''iam'', 0), (''network'', 0), (''custom'', 0), (''default'', 0)]"

definition seed_severity :: "(string, int) dict" where
  "seed_severity = [(''high'', 0), (''medium'', 0), (''low'', 0)]"

text \<open>
  The tables \<open>process_collected_data\<close> assigns before it calls \<open>process_policies\<close> and
  \<open>process_alerts\<close>. The alert tables are assigned between the two calls in the source;
  \<open>process_policies\<close> does not touch them, so they are seeded here at once.
\<close>

definition seeded_results :: "aggregated option \<Rightarrow> results" where
  "seeded_results agg =
     \<lparr>aggregated_alerts_by = agg,
      policies_by_name = [],
      policies = [],
      compliance_standards_counts_from_policies = [],
      alert_counts_from_policies = seed_alert_counts_from_policies,
      compliance_standards_counts_from_alerts = [],
      policy_counts_from_alerts = seed_policy_counts_from_alerts,
      policy_totals_by_alert = [],
      alert_totals_by_alert = seed_alert_totals_by_alert,
      policies_deleted = [],
      policies_disabled = None,
      summary = []\<rparr>"

section \<open>process_aggregated_alerts\<close>

definition store_items :: "(string \<times> int) list \<Rightarrow> (string, int) dict \<Rightarrow> (string, int) dict" where
  "store_items items d = fold (\<lambda>(k, v) acc. AList.update k v acc) items d"

text \<open>
  \<open>alerts['by_policy']\<close> raises \<open>TypeError\<close> when the alerts file holds a list.
\<close>

definition process_aggregated_alerts :: "alerts_file \<Rightarrow> error + aggregated" where
  "process_aggregated_alerts alerts =
     (case alerts of
        AlertsList _ \<Rightarrow> Inl (TypeError ''list indices must be integers or slices, not str'')
      | AlertsDict f \<Rightarrow>
          Inr \<lparr>agg_policy = store_items (by_policy f) [],
               agg_type = store_items (by_policy_type f)
                 [(''anomaly'', 0), (''audit_event'', 0), (''config'', 0), (''data'', 0),
                  (''iam'', 0)],
               agg_severity = store_items (by_policy_severity f) seed_severity,
               agg_status = store_items (by_alert_status f) [(''open'', 0), (''resolved'', 0)]\<rparr>)"

section \<open>process_policies\<close>

text \<open>
  One compliance standard of one policy or alert: \<open>setdefault\<close> of the standard's
  severity counters, then \<open>+= n\<close> on the counter of the severity.
\<close>

definition attribute ::
  "string \<Rightarrow> int \<Rightarrow> (string, (string, int) dict) dict \<Rightarrow> string \<Rightarrow>
   error + (string, (string, int) dict) dict" where
  "attribute sev n counts compliance_standard_name =
     (let counts' = setdefault compliance_standard_name seed_severity counts in
      and_then (getitem counts' compliance_standard_name) (\<lambda>inner.
      and_then (iadd inner sev n) (\<lambda>inner'.
      Inr (AList.update compliance_standard_name inner' counts'))))"

text \<open>The body of the loop of \<open>process_policies\<close>, for one policy.\<close>

definition process_policy :: "bool \<Rightarrow> results \<Rightarrow> policy \<Rightarrow> error + results" where
  "process_policy support_api_mode r this_policy =
     (let this_policy_id = p_policyId this_policy;
          by_name = AList.update (p_name this_policy) this_policy_id (policies_by_name r);
          shiftable = (''build'' \<in> set (p_policySubTypes this_policy));
          upi = (case p_policyUpi this_policy of Some u \<Rightarrow> u | None \<Rightarrow> ''CUSTOM'')
      in
      and_then
        (if support_api_mode then
           (case aggregated_alerts_by r of
              None \<Rightarrow> Inl (KeyError ''aggregated_alerts_by'')
            | Some agg \<Rightarrow>
                (case map_of (agg_policy agg) (p_name this_policy) of
                   Some c \<Rightarrow> Inr c
                 | None \<Rightarrow> Inr 0))
         else
           (case p_openAlertsCount this_policy of
              None \<Rightarrow> Inl (KeyError ''openAlertsCount'')
            | Some c \<Rightarrow> Inr c)) (\<lambda>alert_count.
      and_then (iadd (alert_counts_from_policies r) ''open'' alert_count) (\<lambda>c1.
      and_then (iadd c1 (''open_'' @ p_severity this_policy) alert_count) (\<lambda>c2.
      and_then (iadd c2 (p_policyType this_policy) alert_count) (\<lambda>c3.
      and_then (if p_remediable this_policy then iadd c3 ''remediable'' alert_count
                else Inr c3) (\<lambda>c4.
      and_then (if shiftable then iadd c4 ''shiftable'' alert_count else Inr c4) (\<lambda>c5.
      and_then (if p_systemDefault this_policy then iadd c5 ''default'' alert_count
                else iadd c5 ''custom'' alert_count) (\<lambda>c6.
      let compliance_standards_list =
            (case p_complianceMetadata this_policy of
               None \<Rightarrow> []
             | Some names \<Rightarrow> sort (remdups names))
      in
      and_then (for_each (attribute (p_severity this_policy) alert_count)
                  compliance_standards_list (compliance_standards_counts_from_policies r))
        (\<lambda>counts.
      Inr (r\<lparr>policies_by_name := by_name,
             policies := AList.update this_policy_id
               \<lparr>policyName = p_name this_policy,
                policyEnabled = p_enabled this_policy,
                policySeverity = p_severity this_policy,
                policyType = p_policyType this_policy,
                policyShiftable = shiftable,
                policyRemediable = p_remediable this_policy,
                policySystemDefault = p_systemDefault this_policy,
                policyUpi = upi,
                alertCount = alert_count,
                complianceStandards = compliance_standards_list\<rparr> (policies r),
             alert_counts_from_policies := c6,
             compliance_standards_counts_from_policies := counts\<rparr>))))))))))"

definition process_policies :: "bool \<Rightarrow> policy list \<Rightarrow> results \<Rightarrow> error + results" where
  "process_policies support_api_mode policies_list r =
     for_each (process_policy support_api_mode) policies_list r"

section \<open>process_alerts\<close>

definition copy_item :: "(string, int) dict \<Rightarrow> string \<Rightarrow> (string, int) dict \<Rightarrow> error + (string, int) dict" where
  "copy_item src k dst = and_then (getitem src k) (\<lambda>v. Inr (AList.update k v dst))"

text \<open>
  The support branch of \<open>process_alerts\<close>: eleven reads of the aggregated tables, each
  stored under the same key.
\<close>

definition process_alerts_support :: "results \<Rightarrow> error + results" where
  "process_alerts_support r =
     (case aggregated_alerts_by r of
        None \<Rightarrow> Inl (KeyError ''aggregated_alerts_by'')
      | Some agg \<Rightarrow>
          and_then (copy_item (agg_severity agg) ''high'' (policy_totals_by_alert r)) (\<lambda>t1.
          and_then (copy_item (agg_severity agg) ''medium'' t1) (\<lambda>t2.
          and_then (copy_item (agg_severity agg) ''low'' t2) (\<lambda>t3.
          and_then (copy_item (agg_type agg) ''anomaly'' t3) (\<lambda>t4.
          and_then (copy_item (agg_type agg) ''audit_event'' t4) (\<lambda>t5.
          and_then (copy_item (agg_type agg) ''config'' t5) (\<lambda>t6.
          and_then (copy_item (agg_type agg) ''data'' t6) (\<lambda>t7.
          and_then (copy_item (agg_type agg) ''iam'' t7) (\<lambda>t8.
          and_then (copy_item (agg_type agg) ''network'' t8) (\<lambda>t9.
          and_then (copy_item (agg_status agg) ''open'' (alert_totals_by_alert r)) (\<lambda>a1.
          and_then (copy_item (agg_status agg) ''resolved'' a1) (\<lambda>a2.
          Inr (r\<lparr>policy_totals_by_alert := t9, alert_totals_by_alert := a2\<rparr>)))))))))))))"

text \<open>
  The body of the loop of the full-API branch, for one alert. The membership test of
  line 658 reads the name \<open>policies\<close>, which is neither a parameter nor a local of
  \<open>process_alerts\<close>, so Python resolves it among the module's globals when the test
  runs: \<open>g_policies\<close> is that binding (\<open>None\<close> when the name is unbound, else the
  identifiers for which \<open>in\<close> answers true).
\<close>

definition process_alert :: "string list option \<Rightarrow> results \<Rightarrow> alert \<Rightarrow> error + results" where
  "process_alert g_policies r this_alert =
     (let this_policy_id = a_policyId this_alert in
      and_then (if a_systemDefault this_alert then iadd (alert_totals_by_alert r) ''default'' 1
                else iadd (alert_totals_by_alert r) ''custom'' 1) (\<lambda>t1.
      and_then (iadd t1 (a_policyType this_alert) 1) (\<lambda>t2.
      and_then (if a_remediable this_alert then
                  and_then (iadd t2 ''remediable'' 1) (\<lambda>t.
                  iadd t (''remediable_'' @ a_status this_alert) 1)
                else Inr t2) (\<lambda>t3.
      and_then (iadd t3 (a_status this_alert) 1) (\<lambda>t4.
      and_then (case a_reason this_alert of
                  None \<Rightarrow> Inr t4
                | Some reason \<Rightarrow>
                    and_then (if reason = ''RESOURCE_DELETED'' then iadd t4 ''resolved_deleted'' 1
                              else Inr t4) (\<lambda>t.
                    if reason = ''RESOURCE_UPDATED'' then iadd t ''resolved_updated'' 1
                    else Inr t)) (\<lambda>t5.
      (case g_policies of
         None \<Rightarrow> Inl (NameError ''policies'')
       | Some policies_bound \<Rightarrow>
           if this_policy_id \<notin> set policies_bound then
             (case a_reason this_alert of
                None \<Rightarrow> Inl (KeyError ''reason'')
              | Some reason \<Rightarrow>
                  if reason = ''POLICY_DELETED'' then
                    and_then (iadd (setdefault this_policy_id 0 (policies_deleted r))
                                this_policy_id 1) (\<lambda>deleted.
                    and_then (iadd t5 ''policy_deleted'' 1) (\<lambda>t6.
                    Inr (r\<lparr>policies_deleted := deleted, alert_totals_by_alert := t6\<rparr>)))
                  else Inr (r\<lparr>alert_totals_by_alert := t5\<rparr>))
           else
             and_then (getitem (policies r) this_policy_id) (\<lambda>info.
             let policy_name = policyName info;
                 pc = setdefault policy_name (PolicyCount this_policy_id 0)
                        (policy_counts_from_alerts r)
             in
             and_then (case map_of pc policy_name of
                         None \<Rightarrow> Inl (KeyError policy_name)
                       | Some (Counter _) \<Rightarrow> Inl (TypeError ''int object is not subscriptable'')
                       | Some (PolicyCount pid c) \<Rightarrow>
                           Inr (AList.update policy_name (PolicyCount pid (c + 1)) pc)) (\<lambda>pc'.
             and_then (iadd (policy_totals_by_alert r) (policySeverity info) 1) (\<lambda>pt1.
             and_then (iadd pt1 (policyType info) 1) (\<lambda>pt2.
             and_then (if \<not> policyEnabled info then
                         (case policies_disabled r of
                            None \<Rightarrow> Inl (KeyError ''policies_disabled'')
                          | Some disabled \<Rightarrow>
                              and_then (iadd (setdefault policy_name 0 disabled) policy_name 1)
                                (\<lambda>disabled'.
                              and_then (iadd t5 ''policies_disabled'' 1) (\<lambda>t.
                              Inr (Some disabled', t))))
                       else Inr (policies_disabled r, t5)) (\<lambda>(disabled, t6).
             and_then (for_each (attribute (policySeverity info) 1) (complianceStandards info)
                         (compliance_standards_counts_from_alerts r)) (\<lambda>counts.
             and_then (if policyShiftable info then iadd t6 ''shiftable'' 1 else Inr t6) (\<lambda>t7.
             and_then (iadd t7 (a_status this_alert @ ''_'' @ policySeverity info) 1) (\<lambda>t8.
             Inr (r\<lparr>policy_counts_from_alerts := pc',
                    policy_totals_by_alert := pt2,
                    policies_disabled := disabled,
                    compliance_standards_counts_from_alerts := counts,
                    alert_totals_by_alert := t8\<rparr>))))))))))))))))"

text \<open>
  \<open>process_alerts\<close>. Without the support mode the file is iterated; iterating the
  dictionary of the support API yields its keys, and \<open>this_alert['policy']\<close> on a key
  raises \<open>TypeError\<close>.
\<close>

definition process_alerts ::
  "bool \<Rightarrow> string list option \<Rightarrow> alerts_file \<Rightarrow> results \<Rightarrow> error + results" where
  "process_alerts support_api_mode g_policies alerts r =
     (if support_api_mode then process_alerts_support r
      else (case alerts of
              AlertsList l \<Rightarrow> for_each (process_alert g_policies) l r
            | AlertsDict _ \<Rightarrow> Inl (TypeError ''string indices must be integers'')))"

section \<open>process_summary and process_collected_data\<close>

text \<open>
  \<open>sum(cond for ...)\<close> counts the entries that satisfy the condition. The severity
  dictionaries are compared as dictionaries, that is as sets of items.
\<close>

definition process_summary :: "bool \<Rightarrow> data \<Rightarrow> results \<Rightarrow> error + results" where
  "process_summary support_api_mode d r =
     (let s1 = AList.update ''asset_count'' (ASSETS d) (summary r);
          s2 = AList.update ''count_of_compliance_standards_with_alerts_from_policies''
                 (int (length (filter (\<lambda>(k, v). set v \<noteq> set seed_severity)
                    (compliance_standards_counts_from_policies r)))) s1
      in
      if support_api_mode then
        (case aggregated_alerts_by r of
           None \<Rightarrow> Inl (KeyError ''aggregated_alerts_by'')
         | Some agg \<Rightarrow>
             and_then (getitem (agg_status agg) ''open'') (\<lambda>n.
             Inr (r\<lparr>summary :=
                    AList.update ''count_of_policies_with_alerts_from_policies''
                      (int (length (agg_policy agg)))
                      (AList.update ''alert_count'' n s2)\<rparr>)))
      else
        (let n = (case ALERTS d of
                    AlertsDict _ \<Rightarrow> 4
                  | AlertsList l \<Rightarrow> int (length l))
         in
        Inr (r\<lparr>summary :=
               AList.update ''count_of_policies_with_alerts_from_alerts''
                 (int (length (policy_counts_from_alerts r)))
               (AList.update ''count_of_compliance_standards_with_alerts_from_alerts''
                 (int (length (compliance_standards_counts_from_alerts r)))
               (AList.update ''count_of_policies_with_alerts_from_policies''
                 (int (length (filter (\<lambda>(k, v). alertCount v \<noteq> 0) (policies r))))
               (AList.update ''alert_count'' n s2)))\<rparr>)))"

text \<open>
  \<open>process_collected_data\<close>, with the mode flag, the binding of the global name
  \<open>policies\<close> and the files read as arguments.
\<close>

definition process_collected_data ::
  "bool \<Rightarrow> string list option \<Rightarrow> data \<Rightarrow> error + results" where
  "process_collected_data support_api_mode g_policies d =
     and_then (if support_api_mode then
                 and_then (process_aggregated_alerts (ALERTS d)) (\<lambda>agg. Inr (Some agg))
               else Inr None) (\<lambda>agg.
     and_then (process_policies support_api_mode (POLICIES d) (seeded_results agg)) (\<lambda>r1.
     and_then (process_alerts support_api_mode g_policies (ALERTS d) r1) (\<lambda>r2.
     process_summary support_api_mode d r2)))"

section \<open>The process stage of the main program\<close>

text \<open>
  After \<open>read_collected_data\<close> the main program sets \<open>CONFIG['SUPPORT_API_MODE']\<close> to
  \<open>True\<close> when the alerts file holds a dictionary, and leaves it as \<open>configure\<close> took
  it from the command line otherwise.
\<close>

definition support_api_mode_after_read :: "bool \<Rightarrow> alerts_file \<Rightarrow> bool" where
  "support_api_mode_after_read support_api alerts =
     (case alerts of AlertsDict _ \<Rightarrow> True | AlertsList _ \<Rightarrow> support_api)"

text \<open>
  The module never assigns the global name \<open>policies\<close>, so \<open>process_collected_data\<close>
  runs with that name unbound.
\<close>

definition process_stage :: "bool \<Rightarrow> data \<Rightarrow> error + results" where
  "process_stage support_api d =
     process_collected_data (support_api_mode_after_read support_api (ALERTS d)) None d"

section \<open>The per-policy report sheets\<close>

datatype cell = CStr string | CBool bool | CInt int

fun join :: "string \<Rightarrow> string list \<Rightarrow> string" where
  "join sep [] = []"
| "join sep [x] = x"
| "join sep (x # y # ys) = x @ sep @ join sep (y # ys)"

definition policy_sheet_header :: "cell list" where
  "policy_sheet_header =
     [CStr ''Policy'', CStr ''Enabled'', CStr ''UPI'', CStr ''Severity'', CStr ''Type'',
      CStr ''With IAC'', CStr ''With Remediation'', CStr ''Alert Count'',
      CStr ''Compliance Standards'']"

text \<open>
  The rows of the sheet \<open>Open Alerts by Policy\<close>: the header, then one row per key of
  \<open>policies_by_name\<close> in sorted order.
\<close>

definition open_alerts_by_policy_row :: "results \<Rightarrow> string \<Rightarrow> error + cell list" where
  "open_alerts_by_policy_row r policy_name =
     and_then (getitem (policies_by_name r) policy_name) (\<lambda>this_policy_id.
     and_then (getitem (policies r) this_policy_id) (\<lambda>info.
     let policy_enabled = policyEnabled info;
         policy_upi = policyUpi info;
         policy_severity = policySeverity info;
         policy_type = policyType info;
         policy_is_shiftable = policyShiftable info;
         policy_is_remediable = policyRemediable info;
         policy_alert_count = alertCount info;
         policy_standards_list = join '','' (complianceStandards info)
     in Inr [CStr policy_name, CBool policy_enabled, CStr policy_upi, CStr policy_severity,
             CStr policy_type, CBool policy_is_remediable, CBool policy_is_remediable,
             CInt policy_alert_count, CStr policy_standards_list]))"

definition open_alerts_by_policy_rows :: "results \<Rightarrow> error + cell list list" where
  "open_alerts_by_policy_rows r =
     for_each (\<lambda>rows policy_name.
                 and_then (open_alerts_by_policy_row r policy_name) (\<lambda>row. Inr (rows @ [row])))
       (sort (map fst (policies_by_name r))) [policy_sheet_header]"

text \<open>
  The rows of the sheet \<open>Open Closed Alerts by Policy\<close>, written without the support
  mode: one row per key of \<open>policy_counts_from_alerts\<close> in sorted order, then two empty
  rows and the time range. Subscripting a seeded integer with \<open>'policyId'\<close> raises
  \<open>TypeError\<close>.
\<close>

definition open_closed_alerts_by_policy_row :: "results \<Rightarrow> string \<Rightarrow> error + cell list" where
  "open_closed_alerts_by_policy_row r policy_name =
     and_then (getitem (policy_counts_from_alerts r) policy_name) (\<lambda>entry.
     (case entry of
        Counter _ \<Rightarrow> Inl (TypeError ''int object is not subscriptable'')
      | PolicyCount this_policy_id count \<Rightarrow>
          and_then (getitem (policies r) this_policy_id) (\<lambda>info.
          let policy_enabled = policyEnabled info;
              policy_upi = policyUpi info;
              policy_severity = policySeverity info;
              policy_type = policyType info;
              policy_is_shiftable = policyShiftable info;
              policy_is_remediable = policyRemediable info;
              policy_alert_count = count;
              policy_standards_list = join '','' (complianceStandards info)
          in Inr [CStr policy_name, CBool policy_enabled, CStr policy_upi, CStr policy_severity,
                  CStr policy_type, CBool policy_is_remediable, CBool policy_is_remediable,
                  CInt policy_alert_count, CStr policy_standards_list])))"

definition open_closed_alerts_by_policy_rows :: "string \<Rightarrow> results \<Rightarrow> error + cell list list" where
  "open_closed_alerts_by_policy_rows time_range_label r =
     and_then
       (for_each (\<lambda>rows policy_name.
                    and_then (open_closed_alerts_by_policy_row r policy_name)
                      (\<lambda>row. Inr (rows @ [row])))
          (sort (map fst (policy_counts_from_alerts r))) [policy_sheet_header])
       (\<lambda>rows. Inr (rows @ [[CStr []], [CStr []],
                             [CStr (''Time Range: '' @ time_range_label), CStr []]]))"

section \<open>JSON values and the Python operations on them\<close>

datatype json =
    JNull
  | JBool bool
  | JNum int
  | JStr string
  | JArr "json list"
  | JObj "(string \<times> json) list"

text \<open>\<open>key in j\<close>: a key of a dictionary, an element of a list, a substring of a string.\<close>

definition py_contains :: "string \<Rightarrow> json \<Rightarrow> error + bool" where
  "py_contains key j =
     (case j of
        JObj kvs \<Rightarrow> Inr (map_of kvs key \<noteq> None)
      | JArr xs \<Rightarrow> Inr (JStr key \<in> set xs)
      | JStr s \<Rightarrow> Inr (sublist key s)
      | _ \<Rightarrow> Inl (TypeError ''argument is not iterable''))"

text \<open>\<open>j[key]\<close> with a string key.\<close>

definition py_getitem :: "json \<Rightarrow> string \<Rightarrow> error + json" where
  "py_getitem j key =
     (case j of
        JObj kvs \<Rightarrow> getitem kvs key
      | JArr _ \<Rightarrow> Inl (TypeError ''list indices must be integers or slices, not str'')
      | JStr _ \<Rightarrow> Inl (TypeError ''string indices must be integers'')
      | _ \<Rightarrow> Inl (TypeError ''object is not subscriptable''))"

text \<open>\<open>j[key] = v\<close> with a string key.\<close>

definition py_setitem :: "json \<Rightarrow> string \<Rightarrow> json \<Rightarrow> error + json" where
  "py_setitem j key v =
     (case j of
        JObj kvs \<Rightarrow> Inr (JObj (AList.update key v kvs))
      | JArr _ \<Rightarrow> Inl (TypeError ''list indices must be integers or slices, not str'')
      | _ \<Rightarrow> Inl (TypeError ''object does not support item assignment''))"

text \<open>\<open>j.get(key)\<close>: \<open>None\<close> for a missing key, \<open>AttributeError\<close> off a dictionary.\<close>

definition py_get :: "json \<Rightarrow> string \<Rightarrow> error + json" where
  "py_get j key =
     (case j of
        JObj kvs \<Rightarrow> Inr (case map_of kvs key of None \<Rightarrow> JNull | Some v \<Rightarrow> v)
      | _ \<Rightarrow> Inl (AttributeError ''get''))"

definition py_truthy :: "json \<Rightarrow> bool" where
  "py_truthy j =
     (case j of
        JNull \<Rightarrow> False
      | JBool b \<Rightarrow> b
      | JNum n \<Rightarrow> n \<noteq> 0
      | JStr s \<Rightarrow> s \<noteq> []
      | JArr xs \<Rightarrow> xs \<noteq> []
      | JObj kvs \<Rightarrow> kvs \<noteq> [])"


text \<open>\<open>j > 0\<close>.\<close>

definition py_gt_zero :: "json \<Rightarrow> error + bool" where
  "py_gt_zero j =
     (case j of
        JNum n \<Rightarrow> Inr (n > 0)
      | JBool b \<Rightarrow> Inr b
      | _ \<Rightarrow> Inl (TypeError ''> not supported between these instances''))"

text \<open>
  \<open>for x in j\<close>: the elements of a list, the keys of a dictionary, the characters of a
  string.
\<close>

definition py_iter :: "json \<Rightarrow> error + json list" where
  "py_iter j =
     (case j of
        JArr xs \<Rightarrow> Inr xs
      | JObj kvs \<Rightarrow> Inr (map (\<lambda>(k, v). JStr k) kvs)
      | JStr s \<Rightarrow> Inr (map (\<lambda>c. JStr [c]) s)
      | _ \<Rightarrow> Inl (TypeError ''object is not iterable''))"

text \<open>
  \<open>a == b\<close> on decoded JSON: \<open>True\<close> and \<open>False\<close> are equal to 1 and 0, lists are
  compared element by element, and dictionaries (whose keys are distinct) by their keys
  and the values under them, in any order.
\<close>

fun py_eq :: "json \<Rightarrow> json \<Rightarrow> bool"
  and py_eq_list :: "json list \<Rightarrow> json list \<Rightarrow> bool"
  and py_sub_dict :: "(string \<times> json) list \<Rightarrow> (string \<times> json) list \<Rightarrow> bool" where
  "py_eq JNull JNull = True"
| "py_eq (JBool x) (JBool y) = (x = y)"
| "py_eq (JBool x) (JNum n) = ((if x then 1 else 0) = n)"
| "py_eq (JNum m) (JBool y) = (m = (if y then 1 else 0))"
| "py_eq (JNum m) (JNum n) = (m = n)"
| "py_eq (JStr s) (JStr t) = (s = t)"
| "py_eq (JArr xs) (JArr ys) = py_eq_list xs ys"
| "py_eq (JObj a) (JObj b) = (length a = length b \<and> py_sub_dict a b)"
| "py_eq _ _ = False"
| "py_eq_list [] [] = True"
| "py_eq_list (x # xs) (y # ys) = (py_eq x y \<and> py_eq_list xs ys)"
| "py_eq_list _ _ = False"
| "py_sub_dict [] b = True"
| "py_sub_dict ((k, v) # a) b =
     ((case map_of b k of None \<Rightarrow> False | Some v' \<Rightarrow> py_eq v v') \<and> py_sub_dict a b)"

section \<open>The API and the files\<close>

text \<open>
  The bytes of a response: valid JSON or not. \<open>json.loads\<close> raises on the second.
\<close>

datatype content = Garbage | Json json

definition json_loads :: "content \<Rightarrow> error + json" where
  "json_loads c = (case c of Garbage \<Rightarrow> Inl JSONDecodeError | Json j \<Rightarrow> Inr j)"

text \<open>
  What \<open>sess.send\<close> gives back: a response with its \<open>ok\<close> flag and its content, or a
  \<open>RequestException\<close>. The environment is the sequence of these, one for each call the
  script makes, in order.
\<close>

datatype reply = Response bool content | RequestException

text \<open>The calls of the script, by endpoint; the arguments are the values put in the URL.\<close>

datatype request =
    Login
  | SupportTimelineResource
  | Inventory
  | SupportPolicy
  | Policy
  | AlertJobs
  | AlertJobStatus json
  | AlertJobDownload json
  | SupportAlertAggregate string
  | SupportUser
  | User
  | SupportCloud
  | SupportCloudProject json json
  | Cloud
  | CloudProject json json
  | SupportCloudGroup
  | CloudGroup
  | SupportAlertRule
  | AlertRule
  | SupportIntegration
  | Integration

text \<open>The keys of \<open>CONFIG['RESULT_FILES']\<close>.\<close>

datatype result_file =
    AssetsFile | PoliciesFile | AlertsFile | UsersFile | AccountsFile | GroupsFile
  | RulesFile | IntegrationsFile

text \<open>
  What a result file holds: the bytes of a response, the output of \<open>json.dumps\<close>, or the
  text \<open>{"summary": {"totalResources": v}}\<close> that \<open>get_assets\<close> formats.
\<close>

datatype file_content = Bytes content | Dumped json | TotalResources json

text \<open>The error reports and the poll notes that the script prints.\<close>

datatype message =
    ErrorUrlRequired
  | ErrorAccessKeyRequired
  | ErrorSecretKeyRequired
  | ErrorApiStatus
  | ErrorApiException
  | ErrorLogin json
  | ErrorIdMissing json
  | ErrorStatusMissing json
  | ErrorStatusUnexpected json
  | Checking json
  | RunProcessMode

record world =
  calls :: "request list"
  files :: "result_file \<Rightarrow> file_content option"
  printed :: "message list"

text \<open>
  How the script stops early: \<open>sys.exit(n)\<close>, or an exception that nothing catches.
\<close>

datatype outcome = Exit int | Raised error


type_synonym 'a step = "(outcome \<times> world) + ('a \<times> world)"

definition raising :: "world \<Rightarrow> error + 'a \<Rightarrow> 'a step" where
  "raising w m = (case m of Inl e \<Rightarrow> Inl (Raised e, w) | Inr x \<Rightarrow> Inr (x, w))"

definition output_msg :: "message \<Rightarrow> world \<Rightarrow> world" where
  "output_msg m w = w\<lparr>printed := printed w @ [m]\<rparr>"

definition delete_file_if_exists :: "result_file \<Rightarrow> world \<Rightarrow> world" where
  "delete_file_if_exists f w = w\<lparr>files := (files w)(f := None)\<rparr>"

definition write_file :: "result_file \<Rightarrow> file_content \<Rightarrow> world \<Rightarrow> world" where
  "write_file f c w = w\<lparr>files := (files w)(f \<mapsto> c)\<rparr>"

text \<open>
  \<open>make_api_call\<close>: the request is sent, and the reply to the n-th call of the run is
  \<open>api n\<close>. A response that is not \<open>ok\<close> and a \<open>RequestException\<close> both print an error
  and exit with status 1.
\<close>

definition make_api_call :: "(nat \<Rightarrow> reply) \<Rightarrow> request \<Rightarrow> world \<Rightarrow> content step" where
  "make_api_call api req w =
     (let w' = w\<lparr>calls := calls w @ [req]\<rparr> in
      case api (length (calls w)) of
        Response ok body \<Rightarrow>
          if ok then Inr (body, w') else Inl (Exit 1, output_msg ErrorApiStatus w')
      | RequestException \<Rightarrow> Inl (Exit 1, output_msg ErrorApiException w'))"

section \<open>Configuration\<close>

text \<open>
  The command-line arguments that decide the control flow (the others only fill request
  bodies), and the entries of \<open>CONFIG\<close> read later.
\<close>

record args =
  url :: "string option"
  access_key :: "string option"
  secret_key :: "string option"
  mode :: string
  support_api :: bool

record config =
  RUN_MODE :: string
  SUPPORT_API_MODE :: bool



section \<open>The collector\<close>









subsection \<open>get_alerts\<close>

definition get_alerts_aggregate :: "string \<Rightarrow> (nat \<Rightarrow> reply) \<Rightarrow> world \<Rightarrow> content step" where
  "get_alerts_aggregate group_by_field api w =
     make_api_call api (SupportAlertAggregate group_by_field) w"

definition get_alerts_support :: "(nat \<Rightarrow> reply) \<Rightarrow> world \<Rightarrow> unit step" where
  "get_alerts_support api w =
     and_then (get_alerts_aggregate ''policy.name'' api w) (\<lambda>(c1, w1).
     and_then (raising w1 (json_loads c1)) (\<lambda>(j1, w1).
     and_then (get_alerts_aggregate ''policy.type'' api w1) (\<lambda>(c2, w2).
     and_then (raising w2 (json_loads c2)) (\<lambda>(j2, w2).
     and_then (get_alerts_aggregate ''policy.severity'' api w2) (\<lambda>(c3, w3).
     and_then (raising w3 (json_loads c3)) (\<lambda>(j3, w3).
     and_then (get_alerts_aggregate ''alert.status'' api w3) (\<lambda>(c4, w4).
     and_then (raising w4 (json_loads c4)) (\<lambda>(j4, w4).
     Inr ((), write_file AlertsFile
                (Dumped (JObj [(''by_policy'', j1), (''by_policy_type'', j2),
                               (''by_policy_severity'', j3), (''by_alert.status'', j4)]))
                w4)))))))))"

text \<open>
  The \<open>while\<close> loop of \<open>get_alerts\<close> with the statements that follow it. Nothing bounds
  the number of polls, so the loop is a partial function: \<open>None\<close> is a run that polls
  forever.
\<close>

partial_function (option) poll_alert_job ::
  "(nat \<Rightarrow> reply) \<Rightarrow> json \<Rightarrow> json \<Rightarrow> json \<Rightarrow> world \<Rightarrow> unit step option" where
  "poll_alert_job api alert_job_id alert_job_status api_response_json w =
     (if alert_job_status = JStr ''IN_PROGRESS'' then
        (case make_api_call api (AlertJobStatus alert_job_id)
                (output_msg (Checking alert_job_status) w) of
           Inl stop \<Rightarrow> Some (Inl stop)
         | Inr (api_response, w1) \<Rightarrow>
             (case json_loads api_response of
                Inl e \<Rightarrow> Some (Inl (Raised e, w1))
              | Inr j \<Rightarrow>
                  (case py_contains ''status'' j of
                     Inl e \<Rightarrow> Some (Inl (Raised e, w1))
                   | Inr has \<Rightarrow>
                       if \<not> has then Some (Inr ((), output_msg (ErrorStatusMissing j) w1))
                       else (case py_getitem j ''status'' of
                               Inl e \<Rightarrow> Some (Inl (Raised e, w1))
                             | Inr s \<Rightarrow> poll_alert_job api alert_job_id s j w1))))
      else if alert_job_status = JStr ''READY_TO_DOWNLOAD'' then
        (case make_api_call api (AlertJobDownload alert_job_id) w of
           Inl stop \<Rightarrow> Some (Inl stop)
         | Inr (api_response, w1) \<Rightarrow>
             Some (Inr ((), write_file AlertsFile (Bytes api_response) w1)))
      else Some (Inr ((), output_msg (ErrorStatusUnexpected api_response_json) w)))"

text \<open>The full-API branch of \<open>get_alerts\<close>, after \<open>delete_file_if_exists\<close>.\<close>

definition get_alerts_full :: "(nat \<Rightarrow> reply) \<Rightarrow> world \<Rightarrow> unit step option" where
  "get_alerts_full api w =
     (case make_api_call api AlertJobs w of
        Inl stop \<Rightarrow> Some (Inl stop)
      | Inr (api_response, w1) \<Rightarrow>
          (case json_loads api_response of
             Inl e \<Rightarrow> Some (Inl (Raised e, w1))
           | Inr j \<Rightarrow>
               (case py_contains ''id'' j of
                  Inl e \<Rightarrow> Some (Inl (Raised e, w1))
                | Inr has \<Rightarrow>
                    if \<not> has then Some (Inr ((), output_msg (ErrorIdMissing j) w1))
                    else
                      (case py_getitem j ''id'' of
                         Inl e \<Rightarrow> Some (Inl (Raised e, w1))
                       | Inr alert_job_id \<Rightarrow>
                           (case make_api_call api (AlertJobStatus alert_job_id) w1 of
                              Inl stop \<Rightarrow> Some (Inl stop)
                            | Inr (api_response2, w2) \<Rightarrow>
                                (case json_loads api_response2 of
                                   Inl e \<Rightarrow> Some (Inl (Raised e, w2))
                                 | Inr j2 \<Rightarrow>
                                     (case py_contains ''status'' j2 of
                                        Inl e \<Rightarrow> Some (Inl (Raised e, w2))
                                      | Inr has2 \<Rightarrow>
                                          if \<not> has2 then
                                            Some (Inr ((), output_msg (ErrorStatusMissing j2) w2))
                                          else
                                            (case py_getitem j2 ''status'' of
                                               Inl e \<Rightarrow> Some (Inl (Raised e, w2))
                                             | Inr alert_job_status \<Rightarrow>
                                                 poll_alert_job api alert_job_id
                                                   alert_job_status j2 w2))))))))"

definition get_alerts :: "config \<Rightarrow> (nat \<Rightarrow> reply) \<Rightarrow> world \<Rightarrow> unit step option" where
  "get_alerts c api w0 =
     (let w = delete_file_if_exists AlertsFile w0 in
      if SUPPORT_API_MODE c then Some (get_alerts_support api w)
      else get_alerts_full api w)"

subsection \<open>get_accounts\<close>

text \<open>
  \<open>parse_account_children\<close>: the rows of the children response, the parent's
  \<open>numberOfChildAccounts\<close> stored on each row whose \<open>accountId\<close> is the parent's.
\<close>

definition parse_account_child :: "json \<Rightarrow> json list \<Rightarrow> json \<Rightarrow> error + json list" where
  "parse_account_child account children child_account =
     and_then (py_getitem account ''accountId'') (\<lambda>parent_id.
     and_then (py_getitem child_account ''accountId'') (\<lambda>child_id.
     and_then (if py_eq parent_id child_id then
                 and_then (py_getitem account ''numberOfChildAccounts'') (\<lambda>n.
                 py_setitem child_account ''numberOfChildAccounts'' n)
               else Inr child_account) (\<lambda>child_account'.
     Inr (children @ [child_account']))))"

definition parse_account_children :: "json \<Rightarrow> content \<Rightarrow> error + json list" where
  "parse_account_children account api_response_children =
     and_then (json_loads api_response_children) (\<lambda>api_response_children_json.
     and_then (py_iter api_response_children_json) (\<lambda>rows.
     for_each (parse_account_child account) rows []))"

text \<open>
  The loop of \<open>get_accounts\<close> over the accounts of the first response: an account with
  children (support mode: \<open>numberOfChildAccounts > 0\<close>; else: \<open>accountType\<close> is
  \<open>organization\<close>) is replaced by the rows of one follow-up request.
\<close>

fun expand_accounts ::
  "bool \<Rightarrow> (nat \<Rightarrow> reply) \<Rightarrow> json list \<Rightarrow> json list \<Rightarrow> world \<Rightarrow> json list step" where
  "expand_accounts support_api_mode api [] account_list w = Inr (account_list, w)"
| "expand_accounts support_api_mode api (account # rest) account_list w =
     (case (if support_api_mode then
              and_then (py_getitem account ''numberOfChildAccounts'') py_gt_zero
            else
              and_then (py_getitem account ''accountType'')
                (\<lambda>t. Inr (t = JStr ''organization''))) of
        Inl e \<Rightarrow> Inl (Raised e, w)
      | Inr has_children \<Rightarrow>
          if has_children then
            (case and_then (py_getitem account ''cloudType'') (\<lambda>cloud_type.
                  and_then (py_getitem account ''accountId'') (\<lambda>account_id.
                  Inr (cloud_type, account_id))) of
               Inl e \<Rightarrow> Inl (Raised e, w)
             | Inr (cloud_type, account_id) \<Rightarrow>
                 (case make_api_call api
                         (if support_api_mode then SupportCloudProject cloud_type account_id
                          else CloudProject cloud_type account_id) w of
                    Inl stop \<Rightarrow> Inl stop
                  | Inr (api_response_children, w1) \<Rightarrow>
                      (case parse_account_children account api_response_children of
                         Inl e \<Rightarrow> Inl (Raised e, w1)
                       | Inr children \<Rightarrow>
                           expand_accounts support_api_mode api rest
                             (account_list @ children) w1)))
          else expand_accounts support_api_mode api rest (account_list @ [account]) w)"

definition get_accounts :: "config \<Rightarrow> (nat \<Rightarrow> reply) \<Rightarrow> world \<Rightarrow> unit step" where
  "get_accounts c api w0 =
     (let w = delete_file_if_exists AccountsFile w0 in
      and_then (make_api_call api (if SUPPORT_API_MODE c then SupportCloud else Cloud) w)
        (\<lambda>(api_response, w1).
      and_then (raising w1 (json_loads api_response)) (\<lambda>(api_response_json, w2).
      and_then (raising w2 (py_iter api_response_json)) (\<lambda>(accounts, w3).
      and_then (expand_accounts (SUPPORT_API_MODE c) api accounts [] w3) (\<lambda>(account_list, w4).
      Inr ((), write_file AccountsFile (Dumped (JArr account_list)) w4))))))"

subsection \<open>collect_data and the collect stage of the main program\<close>


text \<open>
  The main program up to the process stage: \<open>configure\<close>, then \<open>collect_data\<close> in the
  modes \<open>collect\<close> and \<open>auto\<close>, then \<open>sys.exit(0)\<close> in the mode \<open>collect\<close>. \<open>Inr\<close> is a
  run that goes on to the process stage.
\<close>

definition initial_world :: world where
  "initial_world = \<lparr>calls = [], files = (\<lambda>f. None), printed = []\<rparr>"


section \<open>Notions used in the statements and their proofs\<close>

text \<open>The world in which a step ended, whether it stopped the run or not.\<close>

definition final_world :: "'a step \<Rightarrow> world" where
  "final_world res = (case res of Inl (out, w) \<Rightarrow> w | Inr (x, w) \<Rightarrow> w)"

text \<open>A reply on which \<open>make_api_call\<close> exits: a response that is not \<open>ok\<close>, or no response.\<close>

definition failed :: "reply \<Rightarrow> bool" where
  "failed rep = (case rep of Response ok body \<Rightarrow> \<not> ok | RequestException \<Rightarrow> True)"

text \<open>Every call made so far was answered by an \<open>ok\<close> response.\<close>

definition all_ok :: "(nat \<Rightarrow> reply) \<Rightarrow> world \<Rightarrow> bool" where
  "all_ok api w = (\<forall>i < length (calls w). \<not> failed (api i))"

text \<open>
  How a step of the collector leaves the calls: it goes on or raises after calls that were
  all answered, or it exits with status 1 on a call that was not.
\<close>

definition stops_well :: "(nat \<Rightarrow> reply) \<Rightarrow> 'a step \<Rightarrow> bool" where
  "stops_well api res =
     (case res of
        Inl (out, w') \<Rightarrow>
          (out = Exit 1 \<and> \<not> all_ok api w') \<or> ((\<exists>e. out = Raised e) \<and> all_ok api w')
      | Inr (x, w') \<Rightarrow> all_ok api w')"



text \<open>An \<open>ok\<close> response of the status endpoint that carries the given status.\<close>

definition has_status :: "json \<Rightarrow> reply \<Rightarrow> bool" where
  "has_status s rep =
     (case rep of
        Response ok body \<Rightarrow>
          ok \<and> (case body of
                  Garbage \<Rightarrow> False
                | Json j \<Rightarrow> py_contains ''status'' j = Inr True \<and> py_getitem j ''status'' = Inr s)
      | RequestException \<Rightarrow> False)"






text \<open>
  The \<open>open\<close> bucket of a counter table is the sum of its three severity buckets.
\<close>

definition open_buckets_agree :: "(string, int) dict \<Rightarrow> bool" where
  "open_buckets_agree t =
     (\<exists>total h m l.
        map_of t ''open'' = Some total \<and> map_of t ''open_high'' = Some h \<and>
        map_of t ''open_medium'' = Some m \<and> map_of t ''open_low'' = Some l \<and>
        total = h + m + l)"

text \<open>
  The attributions to a compliance standard. A policy declares the standards named in its
  \<open>complianceMetadata\<close>; its alert count is its \<open>openAlertsCount\<close>, or in support mode
  the count that the aggregated table has under its name (0 without one); the total of a
  standard in a rollup is the sum of its three severity counters (0 for a standard that
  the rollup does not have).
\<close>

definition declared_standards :: "policy \<Rightarrow> string set" where
  "declared_standards p =
     (case p_complianceMetadata p of None \<Rightarrow> {} | Some names \<Rightarrow> set names)"

definition policy_alert_count :: "bool \<Rightarrow> aggregated option \<Rightarrow> policy \<Rightarrow> int" where
  "policy_alert_count support_api_mode agg p =
     (if support_api_mode then
        (case agg of
           None \<Rightarrow> 0
         | Some g \<Rightarrow> (case map_of (agg_policy g) (p_name p) of None \<Rightarrow> 0 | Some c \<Rightarrow> c))
      else (case p_openAlertsCount p of None \<Rightarrow> 0 | Some c \<Rightarrow> c))"

definition severity_total :: "(string, int) dict \<Rightarrow> int option" where
  "severity_total inner =
     (case (map_of inner ''high'', map_of inner ''medium'', map_of inner ''low'') of
        (Some h, Some m, Some l) \<Rightarrow>
          if set (map fst inner) = set [''high'', ''medium'', ''low''] then Some (h + m + l)
          else None
      | _ \<Rightarrow> None)"

definition standard_total :: "(string, (string, int) dict) dict \<Rightarrow> string \<Rightarrow> int option" where
  "standard_total counts standard =
     (case map_of counts standard of None \<Rightarrow> Some 0 | Some inner \<Rightarrow> severity_total inner)"

text \<open>
  What the account flattening is said to do to one row of the children response: the
  parent's child count on a row whose \<open>accountId\<close> equals the parent's (Python's \<open>==\<close>),
  every other row as it came.
\<close>

definition with_parent_child_count :: "json \<Rightarrow> json \<Rightarrow> json \<Rightarrow> json" where
  "with_parent_child_count parent_id n row =
     (case row of
        JObj kvs \<Rightarrow>
          (case map_of kvs ''accountId'' of
             None \<Rightarrow> row
           | Some child_id \<Rightarrow>
               if py_eq parent_id child_id
               then JObj (AList.update ''numberOfChildAccounts'' n kvs) else row)
      | _ \<Rightarrow> row)"

section \<open>Example inputs\<close>

definition example_policy :: "string \<Rightarrow> string \<Rightarrow> string \<Rightarrow> int \<Rightarrow> policy" where
  "example_policy ident sev ty n =
     \<lparr>p_policyId = ident, p_name = ident, p_enabled = True, p_severity = sev,
      p_policyType = ty, p_policySubTypes = [''run''], p_remediable = False,
      p_systemDefault = True, p_policyUpi = None, p_openAlertsCount = Some n,
      p_complianceMetadata = None\<rparr>"

definition example_alert :: "string \<Rightarrow> bool \<Rightarrow> string \<Rightarrow> string option \<Rightarrow> alert" where
  "example_alert ident rem st reason =
     \<lparr>a_policyId = ident, a_systemDefault = True, a_policyType = ''config'',
      a_remediable = rem, a_status = st, a_reason = reason\<rparr>"

text \<open>An environment that answers with the given replies and then stops answering.\<close>

definition script :: "reply list \<Rightarrow> nat \<Rightarrow> reply" where
  "script rs n = (if n < length rs then rs ! n else RequestException)"

definition ok_json :: "json \<Rightarrow> reply" where
  "ok_json j = Response True (Json j)"

definition status_reply :: "string \<Rightarrow> reply" where
  "status_reply s = ok_json (JObj [(''status'', JStr s)])"

definition example_account :: "string \<Rightarrow> string \<Rightarrow> int \<Rightarrow> json" where
  "example_account ident ty n =
     JObj [(''accountId'', JStr ident), (''cloudType'', JStr ''aws''), (''accountType'', JStr ty),
           (''numberOfChildAccounts'', JNum n)]"

definition example_args :: "string \<Rightarrow> args" where
  "example_args m =
     \<lparr>url = Some ''https://api.example'', access_key = Some ''key'', secret_key = Some ''secret'',
      mode = m, support_api = False\<rparr>"

definition example_info :: "bool \<Rightarrow> bool \<Rightarrow> policy_info" where
  "example_info shiftable rem =
     \<lparr>policyName = ''p1'', policyEnabled = True, policySeverity = ''high'',
      policyType = ''config'', policyShiftable = shiftable, policyRemediable = rem,
      policySystemDefault = True, policyUpi = ''CUSTOM'', alertCount = 5,
      complianceStandards = [''CIS'', ''PCI'']\<rparr>"

definition example_results :: "bool \<Rightarrow> bool \<Rightarrow> results" where
  "example_results shiftable rem =
     (seeded_results None)
       \<lparr>policies_by_name := [(''p1'', ''id1'')],
        policies := [(''id1'', example_info shiftable rem)],
        policy_counts_from_alerts := [(''p1'', PolicyCount ''id1'' 2)]\<rparr>"

section \<open>General lemmas\<close>

lemma and_then_InrE:
  assumes "and_then m f = Inr y"
  obtains x where "m = Inr x" "f x = Inr y"
  using assms by (cases m) (simp_all add: and_then_def)

lemma and_then_Inl [simp]: "and_then (Inl e) f = Inl e"
  by (simp add: and_then_def)

lemma and_then_Inr [simp]: "and_then (Inr x) f = f x"
  by (simp add: and_then_def)

lemma for_each_invariant:
  assumes "for_each f xs s = Inr s'" and "I s"
    and "\<And>a x b. x \<in> set xs \<Longrightarrow> I a \<Longrightarrow> f a x = Inr b \<Longrightarrow> I b"
  shows "I s'"
  using assms
proof (induction xs arbitrary: s)
  case Nil
  then show ?case by simp
next
  case (Cons x xs)
  from Cons.prems(1) obtain s1 where s1: "f s x = Inr s1" and rest: "for_each f xs s1 = Inr s'"
    by (auto split: sum.splits)
  have "I s1" using Cons.prems(3)[OF _ Cons.prems(2) s1] by simp
  then show ?case using Cons.IH[OF rest] Cons.prems(3) by auto
qed

lemma iadd_Inr:
  "iadd d k n = Inr d' \<Longrightarrow> \<exists>c. map_of d k = Some c \<and> map_of d' = (map_of d)(k \<mapsto> c + n)"
  by (auto simp: iadd_def update_conv' split: option.splits)

lemmas eval_defs = process_stage_def support_api_mode_after_read_def process_collected_data_def
  process_policies_def process_policy_def process_alerts_def process_alert_def
  process_summary_def seeded_results_def seed_alert_counts_from_policies_def
  seed_alert_totals_by_alert_def seed_policy_counts_from_alerts_def seed_severity_def
  iadd_def getitem_def setdefault_def attribute_def Let_def example_alert_def example_policy_def

section \<open>process_policies\<close>

text \<open>What a successful run of the loop body did, statement by statement.\<close>

lemma process_policy_InrE:
  assumes "process_policy support r p = Inr r'"
  obtains n c1 c2 c3 c4 c5 c6 counts where
    "(if support then
           (case aggregated_alerts_by r of
              None \<Rightarrow> Inl (KeyError ''aggregated_alerts_by'')
            | Some agg \<Rightarrow>
                (case map_of (agg_policy agg) (p_name p) of
                   Some c \<Rightarrow> Inr c
                 | None \<Rightarrow> Inr 0))
         else
           (case p_openAlertsCount p of
              None \<Rightarrow> Inl (KeyError ''openAlertsCount'')
            | Some c \<Rightarrow> Inr c)) = Inr n"
    "iadd (alert_counts_from_policies r) ''open'' n = Inr c1"
    "iadd c1 (''open_'' @ p_severity p) n = Inr c2"
    "iadd c2 (p_policyType p) n = Inr c3"
    "(if p_remediable p then iadd c3 ''remediable'' n else Inr c3) = Inr c4"
    "(if ''build'' \<in> set (p_policySubTypes p) then iadd c4 ''shiftable'' n else Inr c4) = Inr c5"
    "(if p_systemDefault p then iadd c5 ''default'' n else iadd c5 ''custom'' n) = Inr c6"
    "for_each (attribute (p_severity p) n)
       (case p_complianceMetadata p of None \<Rightarrow> [] | Some names \<Rightarrow> sort (remdups names))
       (compliance_standards_counts_from_policies r) = Inr counts"
    "alert_counts_from_policies r' = c6"
    "compliance_standards_counts_from_policies r' = counts"
    "compliance_standards_counts_from_alerts r' = compliance_standards_counts_from_alerts r"
    "alert_totals_by_alert r' = alert_totals_by_alert r"
    "aggregated_alerts_by r' = aggregated_alerts_by r"
proof -
  show ?thesis
    using assms unfolding process_policy_def Let_def
    apply (elim and_then_InrE)
    apply (rule that)
                apply assumption+
        apply (drule Inr_inject, drule arg_cong[where f = alert_counts_from_policies], simp)
       apply (drule Inr_inject,
        drule arg_cong[where f = compliance_standards_counts_from_policies], simp)
      apply (drule Inr_inject,
        drule arg_cong[where f = compliance_standards_counts_from_alerts], simp)
     apply (drule Inr_inject, drule arg_cong[where f = alert_totals_by_alert], simp)
    apply (drule Inr_inject, drule arg_cong[where f = aggregated_alerts_by], simp)
    done
qed

lemma open_buckets_agree_other:
  assumes "open_buckets_agree t" "iadd t k n = Inr t'"
    "k \<notin> {''open'', ''open_high'', ''open_medium'', ''open_low''}"
  shows "open_buckets_agree t'"
proof -
  from iadd_Inr[OF assms(2)] obtain c where "map_of t' = (map_of t)(k \<mapsto> c + n)" by blast
  then show ?thesis using assms(1,3) unfolding open_buckets_agree_def by auto
qed

lemma open_buckets_agree_open:
  assumes "open_buckets_agree t" "iadd t ''open'' n = Inr t1"
    "iadd t1 (''open_'' @ sev) n = Inr t2" "sev \<in> {''high'', ''medium'', ''low''}"
  shows "open_buckets_agree t2"
proof -
  from iadd_Inr[OF assms(2)] obtain c where
    c: "map_of t ''open'' = Some c" "map_of t1 = (map_of t)(''open'' \<mapsto> c + n)"
    by blast
  from iadd_Inr[OF assms(3)] obtain c' where
    c': "map_of t1 (''open_'' @ sev) = Some c'"
        "map_of t2 = (map_of t1)(''open_'' @ sev \<mapsto> c' + n)"
    by blast
  show ?thesis using assms(1,4) c c' unfolding open_buckets_agree_def by auto
qed

lemma process_policy_open_buckets:
  assumes "process_policy support r p = Inr r'"
    "open_buckets_agree (alert_counts_from_policies r)"
    "p_severity p \<in> {''high'', ''medium'', ''low''}"
    "p_policyType p \<in> {''anomaly'', ''audit_event'', ''config'', ''data'', ''iam'', ''network''}"
  shows "open_buckets_agree (alert_counts_from_policies r')"
proof -
  from assms(1) obtain n c1 c2 c3 c4 c5 c6 where
    s1: "iadd (alert_counts_from_policies r) ''open'' n = Inr c1" and
    s2: "iadd c1 (''open_'' @ p_severity p) n = Inr c2" and
    s3: "iadd c2 (p_policyType p) n = Inr c3" and
    s4: "(if p_remediable p then iadd c3 ''remediable'' n else Inr c3) = Inr c4" and
    s5: "(if ''build'' \<in> set (p_policySubTypes p) then iadd c4 ''shiftable'' n else Inr c4)
           = Inr c5" and
    s6: "(if p_systemDefault p then iadd c5 ''default'' n else iadd c5 ''custom'' n) = Inr c6" and
    r': "alert_counts_from_policies r' = c6"
    by (rule process_policy_InrE)
  have b2: "open_buckets_agree c2"
    using open_buckets_agree_open[OF assms(2) s1 s2 assms(3)] .
  have b3: "open_buckets_agree c3"
    using open_buckets_agree_other[OF b2 s3] assms(4) by auto
  have b4: "open_buckets_agree c4"
    using s4 b3 open_buckets_agree_other[of c3 "''remediable''" n c4]
    by (auto split: if_splits)
  have b5: "open_buckets_agree c5"
    using s5 b4 open_buckets_agree_other[of c4 "''shiftable''" n c5]
    by (auto split: if_splits)
  have b6: "open_buckets_agree c6"
    using s6 b5 open_buckets_agree_other[of c5 "''default''" n c6]
      open_buckets_agree_other[of c5 "''custom''" n c6]
    by (auto split: if_splits)
  show ?thesis using b6 r' by simp
qed

lemma scenario_two_policies:
  "map_sum id alert_counts_from_policies
     (process_policies False
        [example_policy ''p1'' ''high'' ''config'' 5, example_policy ''p2'' ''medium'' ''network'' 3]
        (seeded_results None)) =
   Inr [(''open'', 8), (''open_high'', 5), (''open_medium'', 3), (''open_low'', 0),
      (''anomaly'', 0), (''audit_event'', 0), (''config'', 5), (''data'', 0), (''iam'', 0),
      (''network'', 3), (''remediable'', 0), (''shiftable'', 0), (''custom'', 0),
      (''default'', 8)]"
  by (simp add: process_policies_def process_policy_def example_policy_def seeded_results_def
      seed_alert_counts_from_policies_def iadd_def Let_def)

text \<open>
  Claim C3. After \<open>process_policies\<close> has run over policies whose severity is high,
  medium or low (and whose type is one of the six policy types of the data model), the
  \<open>open\<close> bucket of \<open>alert_counts_from_policies\<close> is the sum of the buckets
  \<open>open_high\<close>, \<open>open_medium\<close> and \<open>open_low\<close>. This holds in both modes, whatever
  the aggregated table of the support mode holds.
\<close>

theorem process_policies_open_is_sum_of_severities:
  assumes "\<forall>p \<in> set ps. p_severity p \<in> {''high'', ''medium'', ''low''}"
    and "\<forall>p \<in> set ps. p_policyType p \<in>
           {''anomaly'', ''audit_event'', ''config'', ''data'', ''iam'', ''network''}"
    and "process_policies support ps (seeded_results agg) = Inr r"
  shows "\<exists>total h m l.
           map_of (alert_counts_from_policies r) ''open'' = Some total \<and>
           map_of (alert_counts_from_policies r) ''open_high'' = Some h \<and>
           map_of (alert_counts_from_policies r) ''open_medium'' = Some m \<and>
           map_of (alert_counts_from_policies r) ''open_low'' = Some l \<and>
           total = h + m + l"
proof -
  have init: "open_buckets_agree (alert_counts_from_policies (seeded_results agg))"
    by (simp add: open_buckets_agree_def seeded_results_def seed_alert_counts_from_policies_def)
  have "open_buckets_agree (alert_counts_from_policies r)"
    using assms(3) unfolding process_policies_def
    by (rule for_each_invariant[where I = "\<lambda>s. open_buckets_agree (alert_counts_from_policies s)"])
       (use init assms(1,2) process_policy_open_buckets in auto)
  then show ?thesis unfolding open_buckets_agree_def by blast
qed

text \<open>
  The scenario of the claim: two policies of severity high and medium with 5 and 3 open
  alerts give \<open>open = 8\<close>, \<open>open_high = 5\<close>, \<open>open_medium = 3\<close>, \<open>open_low = 0\<close>.
\<close>

theorem process_policies_open_is_sum_of_severities_witness:
  "p_severity (example_policy ''p1'' ''high'' ''config'' 5) = ''high'' \<and>
   p_severity (example_policy ''p2'' ''medium'' ''network'' 3) = ''medium'' \<and>
   (\<exists>r. process_policies False
          [example_policy ''p1'' ''high'' ''config'' 5,
           example_policy ''p2'' ''medium'' ''network'' 3] (seeded_results None) = Inr r \<and>
        (\<exists>total h m l.
           map_of (alert_counts_from_policies r) ''open'' = Some total \<and>
           map_of (alert_counts_from_policies r) ''open_high'' = Some h \<and>
           map_of (alert_counts_from_policies r) ''open_medium'' = Some m \<and>
           map_of (alert_counts_from_policies r) ''open_low'' = Some l \<and>
           total = h + m + l) \<and>
        map_of (alert_counts_from_policies r) ''open'' = Some 8 \<and>
        map_of (alert_counts_from_policies r) ''open_high'' = Some 5 \<and>
        map_of (alert_counts_from_policies r) ''open_medium'' = Some 3 \<and>
        map_of (alert_counts_from_policies r) ''open_low'' = Some 0)"
proof -
  let ?ps = "[example_policy ''p1'' ''high'' ''config'' 5,
              example_policy ''p2'' ''medium'' ''network'' 3]"
  have h1: "\<forall>p \<in> set ?ps. p_severity p \<in> {''high'', ''medium'', ''low''}"
    by (simp add: example_policy_def)
  have h2: "\<forall>p \<in> set ?ps. p_policyType p \<in>
      {''anomaly'', ''audit_event'', ''config'', ''data'', ''iam'', ''network''}"
    by (simp add: example_policy_def)
  obtain r where r: "process_policies False ?ps (seeded_results None) = Inr r"
    and t: "alert_counts_from_policies r =
      [(''open'', 8), (''open_high'', 5), (''open_medium'', 3), (''open_low'', 0),
       (''anomaly'', 0), (''audit_event'', 0), (''config'', 5), (''data'', 0), (''iam'', 0),
       (''network'', 3), (''remediable'', 0), (''shiftable'', 0), (''custom'', 0),
       (''default'', 8)]"
    using scenario_two_policies
    by (cases "process_policies False ?ps (seeded_results None)") auto
  have c: "\<exists>total h m l.
           map_of (alert_counts_from_policies r) ''open'' = Some total \<and>
           map_of (alert_counts_from_policies r) ''open_high'' = Some h \<and>
           map_of (alert_counts_from_policies r) ''open_medium'' = Some m \<and>
           map_of (alert_counts_from_policies r) ''open_low'' = Some l \<and>
           total = h + m + l"
    by (rule process_policies_open_is_sum_of_severities[OF h1 h2 r])
  have v: "map_of (alert_counts_from_policies r) ''open'' = Some 8 \<and>
        map_of (alert_counts_from_policies r) ''open_high'' = Some 5 \<and>
        map_of (alert_counts_from_policies r) ''open_medium'' = Some 3 \<and>
        map_of (alert_counts_from_policies r) ''open_low'' = Some 0"
    by (simp add: t)
  have s: "p_severity (example_policy ''p1'' ''high'' ''config'' 5) = ''high'' \<and>
      p_severity (example_policy ''p2'' ''medium'' ''network'' 3) = ''medium''"
    by (simp add: example_policy_def)
  show ?thesis using s r c v by blast
qed

section \<open>process_alerts\<close>

lemma iadd_lookup:
  "iadd d k n = Inr d' \<Longrightarrow>
   map_of d' k' = (if k' = k then map_option (\<lambda>c. c + n) (map_of d k) else map_of d k')"
  by (auto simp: iadd_def update_conv' split: option.splits)

lemma iadd_present: "iadd d k n = Inr d' \<Longrightarrow> map_of d k \<noteq> None"
  by (auto simp: iadd_def split: option.splits)

text \<open>
  What a successful run of the loop body did on an alert whose policy identifier is not
  in the collection that the membership test consults.
\<close>

lemma process_alert_absent_InrE:
  assumes "process_alert (Some ps) r a = Inr r'" and "a_policyId a \<notin> set ps"
  obtains t1 t2 t3 t4 t5 reason where
    "(if a_systemDefault a then iadd (alert_totals_by_alert r) ''default'' 1
      else iadd (alert_totals_by_alert r) ''custom'' 1) = Inr t1"
    "iadd t1 (a_policyType a) 1 = Inr t2"
    "(if a_remediable a then
        and_then (iadd t2 ''remediable'' 1) (\<lambda>t. iadd t (''remediable_'' @ a_status a) 1)
      else Inr t2) = Inr t3"
    "iadd t3 (a_status a) 1 = Inr t4"
    "and_then (if reason = ''RESOURCE_DELETED'' then iadd t4 ''resolved_deleted'' 1 else Inr t4)
       (\<lambda>t. if reason = ''RESOURCE_UPDATED'' then iadd t ''resolved_updated'' 1 else Inr t)
     = Inr t5"
    "a_reason a = Some reason"
    "(if reason = ''POLICY_DELETED'' then
        and_then (iadd (setdefault (a_policyId a) 0 (policies_deleted r)) (a_policyId a) 1)
          (\<lambda>deleted. and_then (iadd t5 ''policy_deleted'' 1)
          (\<lambda>t6. Inr (r\<lparr>policies_deleted := deleted, alert_totals_by_alert := t6\<rparr>)))
      else Inr (r\<lparr>alert_totals_by_alert := t5\<rparr>)) = Inr r'"
proof -
  from assms(1) obtain t1 t2 t3 t4 t5 where
    s1: "(if a_systemDefault a then iadd (alert_totals_by_alert r) ''default'' 1
      else iadd (alert_totals_by_alert r) ''custom'' 1) = Inr t1" and
    s2: "iadd t1 (a_policyType a) 1 = Inr t2" and
    s3: "(if a_remediable a then
        and_then (iadd t2 ''remediable'' 1) (\<lambda>t. iadd t (''remediable_'' @ a_status a) 1)
      else Inr t2) = Inr t3" and
    s4: "iadd t3 (a_status a) 1 = Inr t4" and
    s5: "(case a_reason a of
            None \<Rightarrow> Inr t4
          | Some reason \<Rightarrow>
              and_then (if reason = ''RESOURCE_DELETED'' then iadd t4 ''resolved_deleted'' 1
                        else Inr t4)
                (\<lambda>t. if reason = ''RESOURCE_UPDATED'' then iadd t ''resolved_updated'' 1
                      else Inr t)) = Inr t5" and
    s6: "(case a_reason a of
            None \<Rightarrow> Inl (KeyError ''reason'')
          | Some reason \<Rightarrow>
              if reason = ''POLICY_DELETED'' then
                and_then (iadd (setdefault (a_policyId a) 0 (policies_deleted r))
                            (a_policyId a) 1)
                  (\<lambda>deleted. and_then (iadd t5 ''policy_deleted'' 1)
                  (\<lambda>t6. Inr (r\<lparr>policies_deleted := deleted, alert_totals_by_alert := t6\<rparr>)))
              else Inr (r\<lparr>alert_totals_by_alert := t5\<rparr>)) = Inr r'"
    unfolding process_alert_def Let_def
    apply (elim and_then_InrE)
    apply (simp add: assms(2))
    done
  from s6 obtain reason where reason: "a_reason a = Some reason"
    by (cases "a_reason a") auto
  show ?thesis
    using that[OF s1 s2 s3 s4 _ reason] s5 s6 reason by simp
qed

text \<open>
  The branch of lines 659-665, which the loop body takes when the membership test of
  line 658 evaluates and finds the policy identifier absent. It needs the name
  \<open>policies\<close> bound, which no run of the program does; the lemma records what the
  branch is written to do. For an alert with a documented type and status: the alert
  has a reason; \<open>policy_deleted\<close> goes up by one if that reason is \<open>POLICY_DELETED\<close>
  and is unchanged for any other reason; the buckets of the alert's status and type have
  each gone up by one; and \<open>policy_counts_from_alerts\<close>, \<open>policy_totals_by_alert\<close>,
  \<open>compliance_standards_counts_from_alerts\<close> and \<open>policies_disabled\<close> are unchanged.
\<close>

lemma skip_branch_of_process_alert:
  assumes run: "process_alert (Some ps) r a = Inr r'"
    and absent: "a_policyId a \<notin> set ps"
    and ty: "a_policyType a \<in>
               {''anomaly'', ''audit_event'', ''config'', ''data'', ''iam'', ''network''}"
    and st: "a_status a \<in> {''open'', ''resolved'', ''dismissed'', ''snoozed''}"
    and pd: "map_of (alert_totals_by_alert r) ''policy_deleted'' = Some c"
  shows "a_reason a \<noteq> None \<and>
     map_of (alert_totals_by_alert r') ''policy_deleted'' =
       Some (if a_reason a = Some ''POLICY_DELETED'' then c + 1 else c) \<and>
     map_of (alert_totals_by_alert r') (a_status a) =
       map_option (\<lambda>n. n + 1) (map_of (alert_totals_by_alert r) (a_status a)) \<and>
     map_of (alert_totals_by_alert r) (a_status a) \<noteq> None \<and>
     map_of (alert_totals_by_alert r') (a_policyType a) =
       map_option (\<lambda>n. n + 1) (map_of (alert_totals_by_alert r) (a_policyType a)) \<and>
     map_of (alert_totals_by_alert r) (a_policyType a) \<noteq> None \<and>
     policy_counts_from_alerts r' = policy_counts_from_alerts r \<and>
     policy_totals_by_alert r' = policy_totals_by_alert r \<and>
     compliance_standards_counts_from_alerts r' = compliance_standards_counts_from_alerts r \<and>
     policies_disabled r' = policies_disabled r"
proof -
  from run absent obtain t1 t2 t3 t4 t5 reason where
    s1: "(if a_systemDefault a then iadd (alert_totals_by_alert r) ''default'' 1
      else iadd (alert_totals_by_alert r) ''custom'' 1) = Inr t1" and
    s2: "iadd t1 (a_policyType a) 1 = Inr t2" and
    s3: "(if a_remediable a then
        and_then (iadd t2 ''remediable'' 1) (\<lambda>t. iadd t (''remediable_'' @ a_status a) 1)
      else Inr t2) = Inr t3" and
    s4: "iadd t3 (a_status a) 1 = Inr t4" and
    s5: "and_then (if reason = ''RESOURCE_DELETED'' then iadd t4 ''resolved_deleted'' 1
                   else Inr t4)
       (\<lambda>t. if reason = ''RESOURCE_UPDATED'' then iadd t ''resolved_updated'' 1 else Inr t)
     = Inr t5" and
    reason: "a_reason a = Some reason" and
    s6: "(if reason = ''POLICY_DELETED'' then
        and_then (iadd (setdefault (a_policyId a) 0 (policies_deleted r)) (a_policyId a) 1)
          (\<lambda>deleted. and_then (iadd t5 ''policy_deleted'' 1)
          (\<lambda>t6. Inr (r\<lparr>policies_deleted := deleted, alert_totals_by_alert := t6\<rparr>)))
      else Inr (r\<lparr>alert_totals_by_alert := t5\<rparr>)) = Inr r'"
    by (rule process_alert_absent_InrE)
  let ?t0 = "alert_totals_by_alert r"
  let ?ks = "{''policy_deleted'', a_status a, a_policyType a}"
  have k1: "map_of t1 k = map_of ?t0 k" if "k \<in> ?ks" for k
    using s1 that ty st by (auto simp: iadd_lookup split: if_splits)
  have k2: "map_of t2 k = (if k = a_policyType a then map_option (\<lambda>n. n + 1) (map_of ?t0 k)
                            else map_of ?t0 k)" if "k \<in> ?ks" for k
    using iadd_lookup[OF s2, of k] k1 that by auto
  have k3: "map_of t3 k = map_of t2 k" if "k \<in> ?ks" for k
  proof (cases "a_remediable a")
    case True
    with s3 obtain t where a: "iadd t2 ''remediable'' 1 = Inr t"
      and b: "iadd t (''remediable_'' @ a_status a) 1 = Inr t3"
      by (auto elim: and_then_InrE)
    show ?thesis using iadd_lookup[OF a, of k] iadd_lookup[OF b, of k] that ty st by auto
  next
    case False
    with s3 show ?thesis by simp
  qed
  have k4: "map_of t4 k = (if k = a_status a then map_option (\<lambda>n. n + 1) (map_of t3 k)
                            else map_of t3 k)" for k
    using iadd_lookup[OF s4, of k] by simp
  from s5 obtain t where a5: "(if reason = ''RESOURCE_DELETED'' then iadd t4 ''resolved_deleted'' 1
                   else Inr t4) = Inr t"
    and b5: "(if reason = ''RESOURCE_UPDATED'' then iadd t ''resolved_updated'' 1 else Inr t)
       = Inr t5"
    by (rule and_then_InrE)
  have k5: "map_of t5 k = map_of t4 k" if "k \<in> ?ks" for k
  proof -
    have "map_of t k = map_of t4 k"
      using a5 that ty st by (auto simp: iadd_lookup split: if_splits)
    moreover have "map_of t5 k = map_of t k"
      using b5 that ty st by (auto simp: iadd_lookup split: if_splits)
    ultimately show ?thesis by simp
  qed
  have ne: "a_status a \<noteq> a_policyType a" "a_status a \<noteq> ''policy_deleted''"
    "a_policyType a \<noteq> ''policy_deleted''"
    using ty st by auto
  have p2: "map_of ?t0 (a_policyType a) \<noteq> None"
    using iadd_present[OF s2] k1[of "a_policyType a"] by simp
  have p4: "map_of ?t0 (a_status a) \<noteq> None"
    using iadd_present[OF s4] k3[of "a_status a"] k2[of "a_status a"] ne by simp
  have t5_pd: "map_of t5 ''policy_deleted'' = Some c"
    using k5[of "''policy_deleted''"] k4[of "''policy_deleted''"] k3[of "''policy_deleted''"]
      k2[of "''policy_deleted''"] ne pd by simp
  have t5_st: "map_of t5 (a_status a) = map_option (\<lambda>n. n + 1) (map_of ?t0 (a_status a))"
    using k5[of "a_status a"] k4[of "a_status a"] k3[of "a_status a"] k2[of "a_status a"] ne
    by simp
  have t5_ty: "map_of t5 (a_policyType a) =
      map_option (\<lambda>n. n + 1) (map_of ?t0 (a_policyType a))"
    using k5[of "a_policyType a"] k4[of "a_policyType a"] k3[of "a_policyType a"]
      k2[of "a_policyType a"] ne by simp
  show ?thesis
  proof (cases "reason = ''POLICY_DELETED''")
    case True
    with s6 obtain deleted t6 where
      t6: "iadd t5 ''policy_deleted'' 1 = Inr t6" and
      r': "r' = r\<lparr>policies_deleted := deleted, alert_totals_by_alert := t6\<rparr>"
      by (auto elim!: and_then_InrE)
    have "map_of t6 k = (if k = ''policy_deleted'' then map_option (\<lambda>n. n + 1) (map_of t5 k)
                          else map_of t5 k)" for k
      using iadd_lookup[OF t6, of k] by simp
    then show ?thesis
      using True reason r' t5_pd t5_st t5_ty p2 p4 ne by simp
  next
    case False
    with s6 have r': "r' = r\<lparr>alert_totals_by_alert := t5\<rparr>" by simp
    show ?thesis
      using False reason r' t5_pd t5_st t5_ty p2 p4 by simp
  qed
qed

text \<open>
  Claim C1 at a failing input. Without the support mode, an alert whose policy is not in
  the policy table (no policy was collected) and whose reason is \<open>POLICY_DELETED\<close>: the
  claim has \<open>policy_deleted\<close> go up by one and the processing go on; the run ends with
  \<open>NameError\<close> at the membership test, which reads the name \<open>policies\<close> that the
  module never binds.
\<close>

theorem alert_of_deleted_policy_raises:
  "process_stage False
     \<lparr>ASSETS = 0, POLICIES = [],
      ALERTS = AlertsList [example_alert ''gone'' False ''resolved'' (Some ''POLICY_DELETED'')]\<rparr>
     = Inl (NameError ''policies'')"
  by (simp add: eval_defs)

section \<open>The compliance rollup built from policies\<close>

lemma setdefault_lookup:
  "map_of (setdefault k v d) k' = (if k' = k \<and> map_of d k = None then Some v else map_of d k')"
  by (cases "map_of d k") (auto simp: setdefault_def map_add_def split: option.splits)

lemma setdefault_keys: "fst ` set (setdefault k v d) = insert k (fst ` set d)"
proof (cases "map_of d k")
  case None
  then show ?thesis by (simp add: setdefault_def)
next
  case (Some x)
  then have "k \<in> fst ` set d" by (auto dest: map_of_SomeD intro: rev_image_eqI)
  then show ?thesis using Some by (auto simp: setdefault_def)
qed

lemma severity_total_seed: "severity_total seed_severity = Some 0"
  by (simp add: severity_total_def seed_severity_def)

lemma severity_total_iadd:
  assumes "iadd inner sev n = Inr inner'" and "severity_total inner = Some t"
  shows "severity_total inner' = Some (t + n)"
proof -
  from assms(1) obtain c where c: "map_of inner sev = Some c"
    and upd: "inner' = AList.update sev (c + n) inner"
    by (auto simp: iadd_def split: option.splits)
  from assms(2) obtain h m l where
    v: "map_of inner ''high'' = Some h" "map_of inner ''medium'' = Some m"
       "map_of inner ''low'' = Some l" and
    keys: "set (map fst inner) = set [''high'', ''medium'', ''low'']" and
    t: "t = h + m + l"
    by (auto simp: severity_total_def split: option.splits if_splits)
  have "sev \<in> fst ` set inner" using c by (auto dest: map_of_SomeD intro: rev_image_eqI)
  then have sev: "sev = ''high'' \<or> sev = ''medium'' \<or> sev = ''low''"
    using keys by auto
  have keys': "set (map fst inner') = set [''high'', ''medium'', ''low'']"
    using keys sev unfolding upd by (auto simp: dom_update)
  have look: "map_of inner' = (map_of inner)(sev \<mapsto> c + n)"
    unfolding upd by (rule update_conv')
  show ?thesis
    using sev v c t keys'
    unfolding severity_total_def look
    by (elim disjE) (simp_all del: set_map)
qed

lemma attribute_effect:
  assumes "attribute sev n counts standard = Inr counts'"
    and "standard_total counts standard = Some t"
  shows "standard_total counts' = (standard_total counts)(standard := Some (t + n)) \<and>
         fst ` set counts' = insert standard (fst ` set counts)"
proof -
  let ?c1 = "setdefault standard seed_severity counts"
  from assms(1) obtain inner inner' where
    g: "getitem ?c1 standard = Inr inner" and
    a: "iadd inner sev n = Inr inner'" and
    r: "counts' = AList.update standard inner' ?c1"
    unfolding attribute_def Let_def by (auto elim!: and_then_InrE)
  have inner: "map_of ?c1 standard = Some inner"
    using g by (auto simp: getitem_def split: option.splits)
  have "severity_total inner = Some t"
  proof (cases "map_of counts standard")
    case None
    then have "inner = seed_severity" "t = 0"
      using inner assms(2) by (simp_all add: setdefault_lookup standard_total_def)
    then show ?thesis by (simp add: severity_total_seed)
  next
    case (Some i)
    then have "inner = i" using inner by (simp add: setdefault_lookup)
    then show ?thesis using assms(2) Some by (simp add: standard_total_def)
  qed
  from severity_total_iadd[OF a this] have tot: "severity_total inner' = Some (t + n)" .
  have look: "map_of counts' k = (if k = standard then Some inner' else map_of counts k)" for k
    unfolding r by (simp add: update_conv' setdefault_lookup)
  have "standard_total counts' k = ((standard_total counts)(standard := Some (t + n))) k" for k
    by (simp add: standard_total_def look tot)
  moreover have "fst ` set counts' = insert standard (fst ` set counts)"
    unfolding r by (simp add: dom_update setdefault_keys)
  ultimately show ?thesis by blast
qed

lemma attribute_loop:
  assumes "for_each (attribute sev n) standards counts = Inr counts'"
    and "distinct standards"
    and "\<forall>standard. standard_total counts standard = Some (T standard)"
  shows "fst ` set counts' = fst ` set counts \<union> set standards \<and>
         (\<forall>standard. standard_total counts' standard =
            Some (T standard + (if standard \<in> set standards then n else 0)))"
  using assms
proof (induction standards arbitrary: counts T)
  case Nil
  then show ?case by simp
next
  case (Cons x xs)
  from Cons.prems(1) obtain c1 where
    s1: "attribute sev n counts x = Inr c1" and rest: "for_each (attribute sev n) xs c1 = Inr counts'"
    by (auto split: sum.splits)
  from attribute_effect[OF s1] Cons.prems(3) have
    e1: "standard_total c1 = (standard_total counts)(x := Some (T x + n))" and
    k1: "fst ` set c1 = insert x (fst ` set counts)"
    by auto
  have inv1: "\<forall>standard. standard_total c1 standard = Some ((T(x := T x + n)) standard)"
    using e1 Cons.prems(3) by simp
  from Cons.IH[OF rest _ inv1] Cons.prems(2) have
    "fst ` set counts' = fst ` set c1 \<union> set xs" and
    "\<forall>standard. standard_total counts' standard =
        Some ((T(x := T x + n)) standard + (if standard \<in> set xs then n else 0))"
    by auto
  then show ?case using k1 Cons.prems(2) by auto
qed

lemma process_policy_rollup:
  assumes "process_policy support r p = Inr r'"
    and "\<forall>standard. standard_total (compliance_standards_counts_from_policies r) standard =
           Some (T standard)"
  shows "fst ` set (compliance_standards_counts_from_policies r') =
           fst ` set (compliance_standards_counts_from_policies r) \<union> declared_standards p \<and>
         (\<forall>standard. standard_total (compliance_standards_counts_from_policies r') standard =
            Some (T standard +
              (if standard \<in> declared_standards p
               then policy_alert_count support (aggregated_alerts_by r) p else 0))) \<and>
         aggregated_alerts_by r' = aggregated_alerts_by r"
proof -
  let ?standards = "case p_complianceMetadata p of None \<Rightarrow> [] | Some names \<Rightarrow> sort (remdups names)"
  from assms(1) obtain n counts where
    n: "(if support then
           (case aggregated_alerts_by r of
              None \<Rightarrow> Inl (KeyError ''aggregated_alerts_by'')
            | Some agg \<Rightarrow>
                (case map_of (agg_policy agg) (p_name p) of
                   Some c \<Rightarrow> Inr c
                 | None \<Rightarrow> Inr 0))
         else
           (case p_openAlertsCount p of
              None \<Rightarrow> Inl (KeyError ''openAlertsCount'')
            | Some c \<Rightarrow> Inr c)) = Inr n" and
    loop: "for_each (attribute (p_severity p) n) ?standards
             (compliance_standards_counts_from_policies r) = Inr counts" and
    r': "compliance_standards_counts_from_policies r' = counts" and
    agg: "aggregated_alerts_by r' = aggregated_alerts_by r"
    by (rule process_policy_InrE)
  have count: "n = policy_alert_count support (aggregated_alerts_by r) p"
    using n by (auto simp: policy_alert_count_def split: if_splits option.splits)
  have d: "distinct ?standards" by (simp split: option.splits)
  have s: "set ?standards = declared_standards p"
    by (simp add: declared_standards_def split: option.splits)
  from attribute_loop[OF loop d assms(2)] show ?thesis
    unfolding r' s count using agg by simp
qed

lemma process_policies_rollup:
  assumes "for_each (process_policy support) ps r = Inr r'"
    and "\<forall>standard. standard_total (compliance_standards_counts_from_policies r) standard =
           Some (T standard)"
  shows "fst ` set (compliance_standards_counts_from_policies r') =
           fst ` set (compliance_standards_counts_from_policies r) \<union>
           (\<Union>p \<in> set ps. declared_standards p) \<and>
         (\<forall>standard. standard_total (compliance_standards_counts_from_policies r') standard =
            Some (T standard +
              sum_list (map (policy_alert_count support (aggregated_alerts_by r))
                (filter (\<lambda>p. standard \<in> declared_standards p) ps))))"
  using assms
proof (induction ps arbitrary: r T)
  case Nil
  then show ?case by simp
next
  case (Cons p ps)
  from Cons.prems(1) obtain r1 where
    s1: "process_policy support r p = Inr r1" and
    rest: "for_each (process_policy support) ps r1 = Inr r'"
    by (auto split: sum.splits)
  let ?n = "policy_alert_count support (aggregated_alerts_by r) p"
  let ?T1 = "\<lambda>standard. T standard + (if standard \<in> declared_standards p then ?n else 0)"
  from process_policy_rollup[OF s1 Cons.prems(2)] have
    k1: "fst ` set (compliance_standards_counts_from_policies r1) =
           fst ` set (compliance_standards_counts_from_policies r) \<union> declared_standards p" and
    t1: "\<forall>standard. standard_total (compliance_standards_counts_from_policies r1) standard =
           Some (?T1 standard)" and
    a1: "aggregated_alerts_by r1 = aggregated_alerts_by r"
    by auto
  from Cons.IH[OF rest t1] have
    k: "fst ` set (compliance_standards_counts_from_policies r') =
           fst ` set (compliance_standards_counts_from_policies r1) \<union>
           (\<Union>p \<in> set ps. declared_standards p)" and
    t: "\<forall>standard. standard_total (compliance_standards_counts_from_policies r') standard =
            Some (?T1 standard +
              sum_list (map (policy_alert_count support (aggregated_alerts_by r1))
                (filter (\<lambda>p. standard \<in> declared_standards p) ps)))"
    by auto
  show ?case
    using k t unfolding k1 a1 by auto
qed

text \<open>
  The half of claim C4 that the code keeps. After \<open>process_policies\<close> the rollup
  built from policies holds exactly the standards that some processed policy declares,
  and the three severity counters of each of them add up to the alert counts of the
  policies that declare it.
\<close>

lemma policies_rollup_keys:
  assumes "process_policies support ps (seeded_results agg) = Inr r"
  shows "fst ` set (compliance_standards_counts_from_policies r) =
           (\<Union>p \<in> set ps. declared_standards p)"
proof -
  have init: "\<forall>standard. standard_total
      (compliance_standards_counts_from_policies (seeded_results agg)) standard = Some 0"
    by (simp add: standard_total_def seeded_results_def)
  from process_policies_rollup[OF assms[unfolded process_policies_def] init]
  show ?thesis by (simp add: seeded_results_def)
qed

lemma policies_rollup_sums:
  assumes "process_policies support ps (seeded_results agg) = Inr r"
  shows "standard_total (compliance_standards_counts_from_policies r) standard =
           Some (sum_list (map (policy_alert_count support agg)
                   (filter (\<lambda>p. standard \<in> declared_standards p) ps)))"
proof -
  have init: "\<forall>standard. standard_total
      (compliance_standards_counts_from_policies (seeded_results agg)) standard = Some 0"
    by (simp add: standard_total_def seeded_results_def)
  from process_policies_rollup[OF assms[unfolded process_policies_def] init]
  show ?thesis by (simp add: seeded_results_def)
qed

text \<open>
  Claim C2 at a failing input. Without the support mode, an alert of a remediable policy
  whose status is \<open>dismissed\<close> makes \<open>process_alerts\<close> increment the key
  \<open>remediable_dismissed\<close>, which the seeded alert totals do not have. The same table
  lacks \<open>policies_disabled\<close>, the key incremented for an alert of a disabled policy
  (\<open>policy_disabled\<close> is the key that is seeded), and \<open>RESULTS['policies_disabled']\<close>
  and the keys of \<open>policy_totals_by_alert\<close> are never assigned: with the lookups before
  it granted, the increment for the disabled policy raises \<open>KeyError\<close> as well.
\<close>

theorem seeded_keys_miss_incremented_keys:
  "process_stage False
     \<lparr>ASSETS = 0, POLICIES = [],
      ALERTS = AlertsList [example_alert ''p1'' True ''dismissed'' None]\<rparr>
     = Inl (KeyError ''remediable_dismissed'') \<and>
   map_of (alert_totals_by_alert (seeded_results None)) ''remediable_dismissed'' = None \<and>
   map_of (alert_totals_by_alert (seeded_results None)) ''policies_disabled'' = None \<and>
   map_of (alert_totals_by_alert (seeded_results None)) ''policy_disabled'' = Some 0 \<and>
   policies_disabled (seeded_results None) = None \<and>
   policy_totals_by_alert (seeded_results None) = [] \<and>
   process_alert (Some [''id1''])
     ((seeded_results None)
        \<lparr>policies := [(''id1'', (example_info False False)\<lparr>policyEnabled := False\<rparr>)],
         policy_totals_by_alert := [(''high'', 0), (''config'', 0)],
         policies_disabled := Some []\<rparr>)
     (example_alert ''id1'' False ''open'' None)
     = Inl (KeyError ''policies_disabled'')"
  by (simp add: eval_defs example_info_def)

text \<open>
  Claim C4 at a failing input. One policy that declares the standard \<open>CIS\<close> and one
  open alert of that policy: the claim has \<open>compliance_standards_counts_from_alerts\<close>
  hold \<open>CIS\<close> with one attribution; the run ends with \<open>NameError\<close> at the membership
  test, before any attribution.
\<close>

theorem alert_rollup_never_built:
  "process_stage False
     \<lparr>ASSETS = 0,
      POLICIES = [(example_policy ''p1'' ''high'' ''config'' 1)
                    \<lparr>p_complianceMetadata := Some [''CIS'']\<rparr>],
      ALERTS = AlertsList [example_alert ''p1'' False ''open'' None]\<rparr>
     = Inl (NameError ''policies'')"
  by (simp add: eval_defs)

section \<open>The mode of the process stage\<close>

text \<open>
  Claim C8, as the code has it. In the process stage the support path is taken whenever
  the alerts file holds a dictionary, whatever the flag of the invocation; when the
  file holds a list, the path is the one that the flag of the invocation selects.
\<close>

theorem support_mode_from_file_or_flag:
  "process_stage flag d =
     (case ALERTS d of
        AlertsDict f \<Rightarrow> process_collected_data True None d
      | AlertsList l \<Rightarrow> process_collected_data flag None d)"
  by (simp add: process_stage_def support_api_mode_after_read_def split: alerts_file.splits)

theorem support_mode_from_file_or_flag_witness:
  "process_stage False
     \<lparr>ASSETS = 0, POLICIES = [],
      ALERTS = AlertsDict \<lparr>by_policy = [], by_policy_type = [(''network'', 2)],
                           by_policy_severity = [], by_alert_status = []\<rparr>\<rparr> =
   process_stage True
     \<lparr>ASSETS = 0, POLICIES = [],
      ALERTS = AlertsDict \<lparr>by_policy = [], by_policy_type = [(''network'', 2)],
                           by_policy_severity = [], by_alert_status = []\<rparr>\<rparr>"
  by (simp add: support_mode_from_file_or_flag)

text \<open>
  With a list in the alerts file, the flag of the process-mode invocation decides: with
  the flag the support path is taken and fails on the list, without it the full path
  runs.
\<close>

theorem support_mode_from_file_or_flag_counterexample:
  "process_stage True \<lparr>ASSETS = 0, POLICIES = [], ALERTS = AlertsList []\<rparr>
     = Inl (TypeError ''list indices must be integers or slices, not str'') \<and>
   map_sum id alert_totals_by_alert
     (process_stage False \<lparr>ASSETS = 0, POLICIES = [], ALERTS = AlertsList []\<rparr>)
     = Inr seed_alert_totals_by_alert"
  by (simp add: process_stage_def support_api_mode_after_read_def process_collected_data_def
      process_aggregated_alerts_def process_policies_def process_alerts_def process_summary_def
      seeded_results_def Let_def)

section \<open>The aggregated tables of the support mode\<close>

lemma store_items_keys:
  "fst ` set (store_items items d) = fst ` set d \<union> fst ` set items"
  unfolding store_items_def
proof (induction items arbitrary: d)
  case Nil
  then show ?case by simp
next
  case (Cons x xs)
  then show ?case by (cases x) (auto simp: dom_update)
qed

lemma map_of_present: "(map_of d k \<noteq> None) = (k \<in> fst ` set d)"
  by (simp add: map_of_eq_None_iff)

lemma copy_item_present:
  "k \<in> fst ` set src \<Longrightarrow> \<exists>v. copy_item src k dst = Inr (AList.update k v dst)"
  by (cases "map_of src k") (auto simp: copy_item_def getitem_def map_of_eq_None_iff)

lemma copy_item_absent:
  "k \<notin> fst ` set src \<Longrightarrow> copy_item src k dst = Inl (KeyError k)"
  by (simp add: copy_item_def getitem_def map_of_eq_None_iff[THEN iffD2])

text \<open>
  Claim C10. \<open>process_aggregated_alerts\<close> seeds the type table with the five keys
  anomaly, audit_event, config, data and iam, so its keys are these and the types of
  the aggregate-by-type response; the support branch of \<open>process_alerts\<close> returns
  exactly when that response has an entry whose type is \<open>network\<close>, and raises
  \<open>KeyError\<close> on \<open>network\<close> otherwise.
\<close>

theorem network_total_needs_network_entry:
  assumes agg: "process_aggregated_alerts (AlertsDict f) = Inr agg"
    and r: "aggregated_alerts_by r = Some agg"
  shows "fst ` set (agg_type agg) =
           {''anomaly'', ''audit_event'', ''config'', ''data'', ''iam''} \<union>
           fst ` set (by_policy_type f) \<and>
         (\<exists>r'. process_alerts True g (AlertsDict f) r = Inr r') =
           (''network'' \<in> fst ` set (by_policy_type f)) \<and>
         (process_alerts True g (AlertsDict f) r = Inl (KeyError ''network'')) =
           (''network'' \<notin> fst ` set (by_policy_type f))"
proof -
  from agg have
    ty: "agg_type agg = store_items (by_policy_type f)
           [(''anomaly'', 0), (''audit_event'', 0), (''config'', 0), (''data'', 0), (''iam'', 0)]"
    and sev: "agg_severity agg = store_items (by_policy_severity f) seed_severity"
    and st: "agg_status agg = store_items (by_alert_status f) [(''open'', 0), (''resolved'', 0)]"
    by (auto simp: process_aggregated_alerts_def)
  have keys: "fst ` set (agg_type agg) =
           {''anomaly'', ''audit_event'', ''config'', ''data'', ''iam''} \<union>
           fst ` set (by_policy_type f)"
    by (simp add: ty store_items_keys)
  have sev_keys: "''high'' \<in> fst ` set (agg_severity agg)"
    "''medium'' \<in> fst ` set (agg_severity agg)" "''low'' \<in> fst ` set (agg_severity agg)"
    by (simp_all add: sev store_items_keys seed_severity_def)
  have st_keys: "''open'' \<in> fst ` set (agg_status agg)"
    "''resolved'' \<in> fst ` set (agg_status agg)"
    by (simp_all add: st store_items_keys)
  have ty_keys: "''anomaly'' \<in> fst ` set (agg_type agg)"
    "''audit_event'' \<in> fst ` set (agg_type agg)" "''config'' \<in> fst ` set (agg_type agg)"
    "''data'' \<in> fst ` set (agg_type agg)" "''iam'' \<in> fst ` set (agg_type agg)"
    by (simp_all add: keys)
  have net: "(''network'' \<in> fst ` set (agg_type agg)) =
      (''network'' \<in> fst ` set (by_policy_type f))"
    by (simp add: keys)
  obtain t1 where t1: "copy_item (agg_severity agg) ''high'' (policy_totals_by_alert r) = Inr t1"
    using copy_item_present[OF sev_keys(1)] by blast
  obtain t2 where t2: "copy_item (agg_severity agg) ''medium'' t1 = Inr t2"
    using copy_item_present[OF sev_keys(2)] by blast
  obtain t3 where t3: "copy_item (agg_severity agg) ''low'' t2 = Inr t3"
    using copy_item_present[OF sev_keys(3)] by blast
  obtain t4 where t4: "copy_item (agg_type agg) ''anomaly'' t3 = Inr t4"
    using copy_item_present[OF ty_keys(1)] by blast
  obtain t5 where t5: "copy_item (agg_type agg) ''audit_event'' t4 = Inr t5"
    using copy_item_present[OF ty_keys(2)] by blast
  obtain t6 where t6: "copy_item (agg_type agg) ''config'' t5 = Inr t6"
    using copy_item_present[OF ty_keys(3)] by blast
  obtain t7 where t7: "copy_item (agg_type agg) ''data'' t6 = Inr t7"
    using copy_item_present[OF ty_keys(4)] by blast
  obtain t8 where t8: "copy_item (agg_type agg) ''iam'' t7 = Inr t8"
    using copy_item_present[OF ty_keys(5)] by blast
  have run: "process_alerts True g (AlertsDict f) r =
      and_then (copy_item (agg_type agg) ''network'' t8) (\<lambda>t9.
      and_then (copy_item (agg_status agg) ''open'' (alert_totals_by_alert r)) (\<lambda>a1.
      and_then (copy_item (agg_status agg) ''resolved'' a1) (\<lambda>a2.
      Inr (r\<lparr>policy_totals_by_alert := t9, alert_totals_by_alert := a2\<rparr>))))"
    by (simp add: process_alerts_def process_alerts_support_def r t1 t2 t3 t4 t5 t6 t7 t8)
  show ?thesis
  proof (cases "''network'' \<in> fst ` set (by_policy_type f)")
    case True
    then obtain t9 where t9: "copy_item (agg_type agg) ''network'' t8 = Inr t9"
      using copy_item_present[of "''network''" "agg_type agg" t8] net by blast
    obtain a1 where
      a1: "copy_item (agg_status agg) ''open'' (alert_totals_by_alert r) = Inr a1"
      using copy_item_present[OF st_keys(1)] by blast
    obtain a2 where a2: "copy_item (agg_status agg) ''resolved'' a1 = Inr a2"
      using copy_item_present[OF st_keys(2)] by blast
    show ?thesis using True keys by (simp add: run t9 a1 a2)
  next
    case False
    then have "copy_item (agg_type agg) ''network'' t8 = Inl (KeyError ''network'')"
      using copy_item_absent[of "''network''" "agg_type agg" t8] net by simp
    then show ?thesis using False keys by (simp add: run)
  qed
qed

theorem network_total_needs_network_entry_witness:
  "(\<exists>r'. process_alerts True None
           (AlertsDict \<lparr>by_policy = [], by_policy_type = [(''config'', 4), (''network'', 2)],
                        by_policy_severity = [], by_alert_status = []\<rparr>)
           (seeded_results
              (Some \<lparr>agg_policy = [],
                     agg_type = [(''anomaly'', 0), (''audit_event'', 0), (''config'', 4),
                                 (''data'', 0), (''iam'', 0), (''network'', 2)],
                     agg_severity = seed_severity,
                     agg_status = [(''open'', 0), (''resolved'', 0)]\<rparr>)) = Inr r') \<and>
   process_alerts True None
     (AlertsDict \<lparr>by_policy = [], by_policy_type = [(''config'', 4)],
                  by_policy_severity = [], by_alert_status = []\<rparr>)
     (seeded_results
        (Some \<lparr>agg_policy = [],
               agg_type = [(''anomaly'', 0), (''audit_event'', 0), (''config'', 4),
                           (''data'', 0), (''iam'', 0)],
               agg_severity = seed_severity,
               agg_status = [(''open'', 0), (''resolved'', 0)]\<rparr>))
     = Inl (KeyError ''network'')"
proof -
  let ?f1 = "\<lparr>by_policy = [], by_policy_type = [(''config'', 4), (''network'', 2)],
              by_policy_severity = [], by_alert_status = []\<rparr>"
  let ?a1 = "\<lparr>agg_policy = [],
              agg_type = [(''anomaly'', 0), (''audit_event'', 0), (''config'', 4),
                          (''data'', 0), (''iam'', 0), (''network'', 2)],
              agg_severity = seed_severity,
              agg_status = [(''open'', 0), (''resolved'', 0)]\<rparr>"
  let ?f2 = "\<lparr>by_policy = [], by_policy_type = [(''config'', 4)],
              by_policy_severity = [], by_alert_status = []\<rparr>"
  let ?a2 = "\<lparr>agg_policy = [],
              agg_type = [(''anomaly'', 0), (''audit_event'', 0), (''config'', 4),
                          (''data'', 0), (''iam'', 0)],
              agg_severity = seed_severity,
              agg_status = [(''open'', 0), (''resolved'', 0)]\<rparr>"
  have p1: "process_aggregated_alerts (AlertsDict ?f1) = Inr ?a1"
    by (simp add: process_aggregated_alerts_def store_items_def)
  have p2: "process_aggregated_alerts (AlertsDict ?f2) = Inr ?a2"
    by (simp add: process_aggregated_alerts_def store_items_def)
  have q1: "aggregated_alerts_by (seeded_results (Some ?a1)) = Some ?a1"
    by (simp add: seeded_results_def)
  have q2: "aggregated_alerts_by (seeded_results (Some ?a2)) = Some ?a2"
    by (simp add: seeded_results_def)
  have "\<exists>r'. process_alerts True None (AlertsDict ?f1) (seeded_results (Some ?a1)) = Inr r'"
    using network_total_needs_network_entry[OF p1 q1, of None] by simp
  moreover have "process_alerts True None (AlertsDict ?f2) (seeded_results (Some ?a2))
      = Inl (KeyError ''network'')"
    using network_total_needs_network_entry[OF p2 q2, of None] by simp
  ultimately show ?thesis by blast
qed

section \<open>The per-policy report sheets\<close>

lemma for_each_rows:
  assumes "for_each (\<lambda>rows x. and_then (f x) (\<lambda>row. Inr (rows @ [row]))) xs init = Inr out"
  shows "\<exists>rs. out = init @ rs \<and> list_all2 (\<lambda>x row. f x = Inr row) xs rs"
  using assms
proof (induction xs arbitrary: init)
  case Nil
  then show ?case by simp
next
  case (Cons x xs)
  from Cons.prems obtain row where row: "f x = Inr row"
    and rest: "for_each (\<lambda>rows x. and_then (f x) (\<lambda>row. Inr (rows @ [row]))) xs
                 (init @ [row]) = Inr out"
    by (cases "f x") (auto split: sum.splits)
  from Cons.IH[OF rest] obtain rs where "out = (init @ [row]) @ rs"
    and "list_all2 (\<lambda>x row. f x = Inr row) xs rs"
    by blast
  then have "out = init @ (row # rs) \<and> list_all2 (\<lambda>x row. f x = Inr row) (x # xs) (row # rs)"
    using row by simp
  then show ?case by blast
qed

lemma open_alerts_by_policy_row_columns:
  assumes "open_alerts_by_policy_row r policy_name = Inr row"
  shows "\<exists>this_policy_id info.
           map_of (policies_by_name r) policy_name = Some this_policy_id \<and>
           map_of (policies r) this_policy_id = Some info \<and>
           row ! 0 = CStr policy_name \<and>
           row ! 5 = CBool (policyRemediable info) \<and>
           row ! 6 = CBool (policyRemediable info)"
  using assms unfolding open_alerts_by_policy_row_def Let_def
  by (auto simp: getitem_def elim!: and_then_InrE split: option.splits)

lemma open_closed_alerts_by_policy_row_columns:
  assumes "open_closed_alerts_by_policy_row r policy_name = Inr row"
  shows "\<exists>this_policy_id n info.
           map_of (policy_counts_from_alerts r) policy_name = Some (PolicyCount this_policy_id n) \<and>
           map_of (policies r) this_policy_id = Some info \<and>
           row ! 0 = CStr policy_name \<and>
           row ! 5 = CBool (policyRemediable info) \<and>
           row ! 6 = CBool (policyRemediable info)"
  using assms unfolding open_closed_alerts_by_policy_row_def Let_def
  by (auto simp: getitem_def elim!: and_then_InrE split: option.splits policy_count.splits)

lemma map_of_map_values:
  "map_of (map (\<lambda>(k, v). (k, h k v)) d) k = map_option (h k) (map_of d k)"
  by (induction d) auto

lemma open_alerts_by_policy_row_shiftable:
  "open_alerts_by_policy_row
     (r\<lparr>policies := map (\<lambda>(k, i). (k, i\<lparr>policyShiftable := b k\<rparr>)) (policies r)\<rparr>) =
   open_alerts_by_policy_row r"
proof (rule ext)
  fix policy_name
  show "open_alerts_by_policy_row
     (r\<lparr>policies := map (\<lambda>(k, i). (k, i\<lparr>policyShiftable := b k\<rparr>)) (policies r)\<rparr>)
       policy_name = open_alerts_by_policy_row r policy_name"
    unfolding open_alerts_by_policy_row_def Let_def getitem_def
    by (cases "map_of (policies_by_name r) policy_name")
       (auto simp: map_of_map_values split: option.splits)
qed

lemma open_closed_alerts_by_policy_row_shiftable:
  "open_closed_alerts_by_policy_row
     (r\<lparr>policies := map (\<lambda>(k, i). (k, i\<lparr>policyShiftable := b k\<rparr>)) (policies r)\<rparr>) =
   open_closed_alerts_by_policy_row r"
proof (rule ext)
  fix policy_name
  show "open_closed_alerts_by_policy_row
     (r\<lparr>policies := map (\<lambda>(k, i). (k, i\<lparr>policyShiftable := b k\<rparr>)) (policies r)\<rparr>)
       policy_name = open_closed_alerts_by_policy_row r policy_name"
    unfolding open_closed_alerts_by_policy_row_def Let_def getitem_def
    by (cases "map_of (policy_counts_from_alerts r) policy_name")
       (auto simp: map_of_map_values split: option.splits policy_count.splits)
qed

text \<open>
  Claim C9. In the sheets \<open>Open Alerts by Policy\<close> and \<open>Open Closed Alerts by Policy\<close>,
  column 5 is headed \<open>With IAC\<close> and column 6 \<open>With Remediation\<close>; every policy row
  that is written carries the remediable flag of its policy in both columns; and the
  rows do not depend on the shiftable flags of the policies at all.
\<close>

theorem with_iac_column_is_remediable:
  "policy_sheet_header ! 5 = CStr ''With IAC'' \<and>
   policy_sheet_header ! 6 = CStr ''With Remediation'' \<and>
   (open_alerts_by_policy_rows r = Inr rows1 \<longrightarrow>
      (\<exists>rs. rows1 = policy_sheet_header # rs \<and>
         length rs = length (policies_by_name r) \<and>
         (\<forall>row \<in> set rs. \<exists>policy_name this_policy_id info.
            map_of (policies_by_name r) policy_name = Some this_policy_id \<and>
            map_of (policies r) this_policy_id = Some info \<and>
            row ! 0 = CStr policy_name \<and>
            row ! 5 = CBool (policyRemediable info) \<and>
            row ! 6 = CBool (policyRemediable info)))) \<and>
   (open_closed_alerts_by_policy_rows time_range_label r = Inr rows2 \<longrightarrow>
      (\<exists>rs. rows2 = policy_sheet_header # rs @
                [[CStr []], [CStr []], [CStr (''Time Range: '' @ time_range_label), CStr []]] \<and>
         length rs = length (policy_counts_from_alerts r) \<and>
         (\<forall>row \<in> set rs. \<exists>policy_name this_policy_id n info.
            map_of (policy_counts_from_alerts r) policy_name =
              Some (PolicyCount this_policy_id n) \<and>
            map_of (policies r) this_policy_id = Some info \<and>
            row ! 0 = CStr policy_name \<and>
            row ! 5 = CBool (policyRemediable info) \<and>
            row ! 6 = CBool (policyRemediable info)))) \<and>
   open_alerts_by_policy_rows
     (r\<lparr>policies := map (\<lambda>(k, i). (k, i\<lparr>policyShiftable := b k\<rparr>)) (policies r)\<rparr>) =
     open_alerts_by_policy_rows r \<and>
   open_closed_alerts_by_policy_rows time_range_label
     (r\<lparr>policies := map (\<lambda>(k, i). (k, i\<lparr>policyShiftable := b k\<rparr>)) (policies r)\<rparr>) =
     open_closed_alerts_by_policy_rows time_range_label r"
proof (intro conjI impI)
  show "policy_sheet_header ! 5 = CStr ''With IAC''"
    by (simp add: policy_sheet_header_def)
  show "policy_sheet_header ! 6 = CStr ''With Remediation''"
    by (simp add: policy_sheet_header_def)
next
  assume a: "open_alerts_by_policy_rows r = Inr rows1"
  from for_each_rows[OF a[unfolded open_alerts_by_policy_rows_def]] obtain rs where
    rows: "rows1 = [policy_sheet_header] @ rs" and
    all: "list_all2 (\<lambda>x row. open_alerts_by_policy_row r x = Inr row)
            (sort (map fst (policies_by_name r))) rs"
    by blast
  have len: "length rs = length (policies_by_name r)"
    using list_all2_lengthD[OF all] by simp
  have "\<exists>policy_name this_policy_id info.
            map_of (policies_by_name r) policy_name = Some this_policy_id \<and>
            map_of (policies r) this_policy_id = Some info \<and>
            row ! 0 = CStr policy_name \<and>
            row ! 5 = CBool (policyRemediable info) \<and>
            row ! 6 = CBool (policyRemediable info)" if "row \<in> set rs" for row
  proof -
    from that all obtain x where "open_alerts_by_policy_row r x = Inr row"
      by (auto simp: list_all2_conv_all_nth in_set_conv_nth)
    from open_alerts_by_policy_row_columns[OF this] show ?thesis by blast
  qed
  then show "\<exists>rs. rows1 = policy_sheet_header # rs \<and>
         length rs = length (policies_by_name r) \<and>
         (\<forall>row \<in> set rs. \<exists>policy_name this_policy_id info.
            map_of (policies_by_name r) policy_name = Some this_policy_id \<and>
            map_of (policies r) this_policy_id = Some info \<and>
            row ! 0 = CStr policy_name \<and>
            row ! 5 = CBool (policyRemediable info) \<and>
            row ! 6 = CBool (policyRemediable info))"
    using rows len by auto
next
  assume a: "open_closed_alerts_by_policy_rows time_range_label r = Inr rows2"
  then obtain rows where
    loop: "for_each (\<lambda>rows policy_name.
                    and_then (open_closed_alerts_by_policy_row r policy_name)
                      (\<lambda>row. Inr (rows @ [row])))
          (sort (map fst (policy_counts_from_alerts r))) [policy_sheet_header] = Inr rows"
    and rows2: "rows2 = rows @ [[CStr []], [CStr []],
                  [CStr (''Time Range: '' @ time_range_label), CStr []]]"
    unfolding open_closed_alerts_by_policy_rows_def by (auto elim!: and_then_InrE)
  from for_each_rows[OF loop] obtain rs where
    rows: "rows = [policy_sheet_header] @ rs" and
    all: "list_all2 (\<lambda>x row. open_closed_alerts_by_policy_row r x = Inr row)
            (sort (map fst (policy_counts_from_alerts r))) rs"
    by blast
  have len: "length rs = length (policy_counts_from_alerts r)"
    using list_all2_lengthD[OF all] by simp
  have "\<exists>policy_name this_policy_id n info.
            map_of (policy_counts_from_alerts r) policy_name =
              Some (PolicyCount this_policy_id n) \<and>
            map_of (policies r) this_policy_id = Some info \<and>
            row ! 0 = CStr policy_name \<and>
            row ! 5 = CBool (policyRemediable info) \<and>
            row ! 6 = CBool (policyRemediable info)" if "row \<in> set rs" for row
  proof -
    from that all obtain x where "open_closed_alerts_by_policy_row r x = Inr row"
      by (auto simp: list_all2_conv_all_nth in_set_conv_nth)
    from open_closed_alerts_by_policy_row_columns[OF this] show ?thesis by blast
  qed
  then show "\<exists>rs. rows2 = policy_sheet_header # rs @
                [[CStr []], [CStr []], [CStr (''Time Range: '' @ time_range_label), CStr []]] \<and>
         length rs = length (policy_counts_from_alerts r) \<and>
         (\<forall>row \<in> set rs. \<exists>policy_name this_policy_id n info.
            map_of (policy_counts_from_alerts r) policy_name =
              Some (PolicyCount this_policy_id n) \<and>
            map_of (policies r) this_policy_id = Some info \<and>
            row ! 0 = CStr policy_name \<and>
            row ! 5 = CBool (policyRemediable info) \<and>
            row ! 6 = CBool (policyRemediable info))"
    using rows rows2 len by auto
next
  show "open_alerts_by_policy_rows
     (r\<lparr>policies := map (\<lambda>(k, i). (k, i\<lparr>policyShiftable := b k\<rparr>)) (policies r)\<rparr>) =
     open_alerts_by_policy_rows r"
    unfolding open_alerts_by_policy_rows_def
    by (simp add: open_alerts_by_policy_row_shiftable)
next
  show "open_closed_alerts_by_policy_rows time_range_label
     (r\<lparr>policies := map (\<lambda>(k, i). (k, i\<lparr>policyShiftable := b k\<rparr>)) (policies r)\<rparr>) =
     open_closed_alerts_by_policy_rows time_range_label r"
    unfolding open_closed_alerts_by_policy_rows_def
    by (simp add: open_closed_alerts_by_policy_row_shiftable)
qed

text \<open>
  A policy that is shiftable and not remediable: both sheets show \<open>False\<close> under
  \<open>With IAC\<close>.
\<close>

lemma example_sheets:
  "open_alerts_by_policy_rows (example_results True False) =
     Inr [policy_sheet_header,
          [CStr ''p1'', CBool True, CStr ''CUSTOM'', CStr ''high'', CStr ''config'',
           CBool False, CBool False, CInt 5, CStr ''CIS,PCI'']]"
  "open_closed_alerts_by_policy_rows ''Past 1 Week'' (example_results True False) =
     Inr [policy_sheet_header,
          [CStr ''p1'', CBool True, CStr ''CUSTOM'', CStr ''high'', CStr ''config'',
           CBool False, CBool False, CInt 2, CStr ''CIS,PCI''],
          [CStr []], [CStr []], [CStr ''Time Range: Past 1 Week'', CStr []]]"
  by (simp_all add: open_alerts_by_policy_rows_def open_alerts_by_policy_row_def
      open_closed_alerts_by_policy_rows_def open_closed_alerts_by_policy_row_def
      example_results_def example_info_def seeded_results_def getitem_def Let_def)

theorem with_iac_column_is_remediable_witness:
  "\<exists>rows1 rows2 rs.
     open_alerts_by_policy_rows (example_results True False) = Inr rows1 \<and>
     open_closed_alerts_by_policy_rows ''Past 1 Week'' (example_results True False) = Inr rows2 \<and>
     rows1 = policy_sheet_header # rs \<and> length rs = 1 \<and>
     rows1 ! 1 ! 5 = CBool False \<and> rows2 ! 1 ! 5 = CBool False"
proof -
  let ?r = "example_results True False"
  obtain rows1 where r1: "open_alerts_by_policy_rows ?r = Inr rows1"
    and v1: "rows1 ! 1 ! 5 = CBool False"
    using example_sheets(1) by simp
  obtain rows2 where r2: "open_closed_alerts_by_policy_rows ''Past 1 Week'' ?r = Inr rows2"
    and v2: "rows2 ! 1 ! 5 = CBool False"
    using example_sheets(2) by simp
  from with_iac_column_is_remediable[of ?r rows1 "''Past 1 Week''" rows2 "\<lambda>k. True",
      THEN conjunct2, THEN conjunct2, THEN conjunct1, THEN mp, OF r1]
  obtain rs where "rows1 = policy_sheet_header # rs" "length rs = length (policies_by_name ?r)"
    by (elim exE conjE)
  then have "rows1 = policy_sheet_header # rs \<and> length rs = 1"
    by (simp add: example_results_def)
  then show ?thesis using r1 r2 v1 v2 by blast
qed

section \<open>get_accounts\<close>

lemmas collect_defs = make_api_call_def json_loads_def raising_def output_msg_def
  delete_file_if_exists_def write_file_def py_getitem_def py_contains_def py_iter_def
  py_setitem_def py_get_def py_truthy_def getitem_def Let_def

lemmas example_defs = script_def ok_json_def status_reply_def example_account_def
  example_args_def initial_world_def final_world_def

lemma parse_account_child_row:
  assumes "map_of pkvs ''accountId'' = Some parent_id"
    and "map_of pkvs ''numberOfChildAccounts'' = Some n"
    and "map_of kvs ''accountId'' = Some child_id"
  shows "parse_account_child (JObj pkvs) children (JObj kvs) =
           Inr (children @ [with_parent_child_count parent_id n (JObj kvs)])"
  using assms
  by (simp add: parse_account_child_def with_parent_child_count_def py_getitem_def
      py_setitem_def getitem_def)

lemma parse_account_rows:
  assumes "map_of pkvs ''accountId'' = Some parent_id"
    and "map_of pkvs ''numberOfChildAccounts'' = Some n"
    and "\<forall>row \<in> set rows. \<exists>kvs child_id. row = JObj kvs \<and> map_of kvs ''accountId'' = Some child_id"
  shows "for_each (parse_account_child (JObj pkvs)) rows children =
           Inr (children @ map (with_parent_child_count parent_id n) rows)"
  using assms(3)
proof (induction rows arbitrary: children)
  case Nil
  then show ?case by simp
next
  case (Cons row rows)
  then obtain kvs child_id where row: "row = JObj kvs" "map_of kvs ''accountId'' = Some child_id"
    by auto
  show ?case
    using Cons.IH[of "children @ [with_parent_child_count parent_id n row]"] Cons.prems
    by (simp add: row parse_account_child_row[OF assms(1,2) row(2)])
qed

lemma parse_account_children_rows:
  assumes "map_of pkvs ''accountId'' = Some parent_id"
    and "map_of pkvs ''numberOfChildAccounts'' = Some n"
    and "\<forall>row \<in> set rows. \<exists>kvs child_id. row = JObj kvs \<and> map_of kvs ''accountId'' = Some child_id"
  shows "parse_account_children (JObj pkvs) (Json (JArr rows)) =
           Inr (map (with_parent_child_count parent_id n) rows)"
  using parse_account_rows[OF assms, of "[]"]
  by (simp add: parse_account_children_def json_loads_def py_iter_def)

text \<open>
  Claim C5, as the code has it. Without the support mode, when the account list holds
  one account of type \<open>organization\<close> and the follow-up request returns rows that
  each carry an \<open>accountId\<close>, the accounts file holds exactly those rows in their
  order: a row whose \<open>accountId\<close> equals the parent's (as Python's \<open>==\<close> compares
  them) has its \<open>numberOfChildAccounts\<close> set to the parent's, every other row is stored
  as it came. Two requests are made.
\<close>

theorem get_accounts_flattens_organization:
  assumes mode: "\<not> SUPPORT_API_MODE c"
    and ty: "map_of pkvs ''accountType'' = Some (JStr ''organization'')"
    and pid: "map_of pkvs ''accountId'' = Some parent_id"
    and ct: "map_of pkvs ''cloudType'' = Some cloud_type"
    and n: "map_of pkvs ''numberOfChildAccounts'' = Some n"
    and first: "api (length (calls w)) = Response True (Json (JArr [JObj pkvs]))"
    and second: "api (Suc (length (calls w))) = Response True (Json (JArr rows))"
    and rows: "\<forall>row \<in> set rows. \<exists>kvs child_id.
                 row = JObj kvs \<and> map_of kvs ''accountId'' = Some child_id"
  shows "\<exists>w'. get_accounts c api w = Inr ((), w') \<and>
           files w' AccountsFile =
             Some (Dumped (JArr (map (with_parent_child_count parent_id n) rows))) \<and>
           calls w' = calls w @ [Cloud, CloudProject cloud_type parent_id]"
proof -
  let ?w0 = "delete_file_if_exists AccountsFile w"
  let ?w1 = "?w0\<lparr>calls := calls ?w0 @ [Cloud]\<rparr>"
  let ?w2 = "?w1\<lparr>calls := calls ?w1 @ [CloudProject cloud_type parent_id]\<rparr>"
  have len0: "length (calls ?w0) = length (calls w)"
    by (simp add: delete_file_if_exists_def)
  have call1: "make_api_call api Cloud ?w0 = Inr (Json (JArr [JObj pkvs]), ?w1)"
    by (simp add: make_api_call_def len0 first)
  have call2: "make_api_call api (CloudProject cloud_type parent_id) ?w1 = Inr (Json (JArr rows), ?w2)"
    by (simp add: make_api_call_def len0 second)
  have children: "parse_account_children (JObj pkvs) (Json (JArr rows)) =
      Inr (map (with_parent_child_count parent_id n) rows)"
    by (rule parse_account_children_rows[OF pid n rows])
  have expand: "expand_accounts False api [JObj pkvs] [] ?w1 =
      Inr (map (with_parent_child_count parent_id n) rows, ?w2)"
    by (simp add: py_getitem_def getitem_def ty pid ct call2 children)
  have "get_accounts c api w =
      Inr ((), write_file AccountsFile
                 (Dumped (JArr (map (with_parent_child_count parent_id n) rows))) ?w2)"
    using mode
    by (simp add: get_accounts_def Let_def call1 raising_def json_loads_def py_iter_def expand
        del: expand_accounts.simps)
  then show ?thesis
    by (simp add: write_file_def delete_file_if_exists_def)
qed

lemma example_accounts_file:
  "files (final_world
      (get_accounts \<lparr>RUN_MODE = ''collect'', SUPPORT_API_MODE = False\<rparr>
         (script [ok_json (JArr [example_account ''org'' ''organization'' 2]),
                  ok_json (JArr [example_account ''org'' ''organization'' 0,
                                 example_account ''child1'' ''account'' 0])])
         initial_world)) AccountsFile =
   Some (Dumped (JArr [example_account ''org'' ''organization'' 2,
                       example_account ''child1'' ''account'' 0]))"
  by (simp add: get_accounts_def parse_account_children_def parse_account_child_def
      collect_defs example_defs)

theorem get_accounts_flattens_organization_witness:
  "\<exists>w'. get_accounts \<lparr>RUN_MODE = ''collect'', SUPPORT_API_MODE = False\<rparr>
          (script [ok_json (JArr [example_account ''org'' ''organization'' 2]),
                   ok_json (JArr [example_account ''org'' ''organization'' 0,
                                  example_account ''child1'' ''account'' 0])])
          initial_world = Inr ((), w') \<and>
        files w' AccountsFile =
          Some (Dumped (JArr [example_account ''org'' ''organization'' 2,
                              example_account ''child1'' ''account'' 0])) \<and>
        calls w' = [Cloud, CloudProject (JStr ''aws'') (JStr ''org'')]"
proof -
  let ?c = "\<lparr>RUN_MODE = ''collect'', SUPPORT_API_MODE = False\<rparr>"
  let ?rows = "[example_account ''org'' ''organization'' 0,
                example_account ''child1'' ''account'' 0]"
  let ?api = "script [ok_json (JArr [example_account ''org'' ''organization'' 2]),
                      ok_json (JArr ?rows)]"
  let ?pkvs = "[(''accountId'', JStr ''org''), (''cloudType'', JStr ''aws''),
                (''accountType'', JStr ''organization''), (''numberOfChildAccounts'', JNum 2)]"
  have mode: "\<not> SUPPORT_API_MODE ?c" by simp
  have ty: "map_of ?pkvs ''accountType'' = Some (JStr ''organization'')" by simp
  have pid: "map_of ?pkvs ''accountId'' = Some (JStr ''org'')" by simp
  have ct: "map_of ?pkvs ''cloudType'' = Some (JStr ''aws'')" by simp
  have n: "map_of ?pkvs ''numberOfChildAccounts'' = Some (JNum 2)" by simp
  have first: "?api (length (calls initial_world)) = Response True (Json (JArr [JObj ?pkvs]))"
    by (simp add: example_defs)
  have second: "?api (Suc (length (calls initial_world))) = Response True (Json (JArr ?rows))"
    by (simp add: example_defs)
  have rows: "\<forall>row \<in> set ?rows. \<exists>kvs child_id.
                 row = JObj kvs \<and> map_of kvs ''accountId'' = Some child_id"
    by (simp add: example_account_def)
  have m: "map (with_parent_child_count (JStr ''org'') (JNum 2)) ?rows =
      [example_account ''org'' ''organization'' 2, example_account ''child1'' ''account'' 0]"
    by (simp add: with_parent_child_count_def example_account_def)
  from get_accounts_flattens_organization[OF mode ty pid ct n first second rows]
  obtain w' where run: "get_accounts ?c ?api initial_world = Inr ((), w')"
    and stored: "files w' AccountsFile =
      Some (Dumped (JArr (map (with_parent_child_count (JStr ''org'') (JNum 2)) ?rows)))"
    and trace: "calls w' = calls initial_world @ [Cloud, CloudProject (JStr ''aws'') (JStr ''org'')]"
    by blast
  have "calls w' = [Cloud, CloudProject (JStr ''aws'') (JStr ''org'')]"
    using trace by (simp add: initial_world_def)
  then show ?thesis using run stored[unfolded m] by blast
qed

text \<open>
  The claim as stated fails on the row of a child: the children response
  \<open>[org (0 children), child1 (0 children)]\<close> of a parent \<open>org\<close> with 2 children is stored
  as \<open>[org (2), child1 (0)]\<close>, so the child count of \<open>child1\<close> is not the parent's.
\<close>

theorem get_accounts_flattens_organization_counterexample:
  "files (final_world
      (get_accounts \<lparr>RUN_MODE = ''collect'', SUPPORT_API_MODE = False\<rparr>
         (script [ok_json (JArr [example_account ''org'' ''organization'' 2]),
                  ok_json (JArr [example_account ''org'' ''organization'' 0,
                                 example_account ''child1'' ''account'' 0])])
         initial_world)) AccountsFile =
   Some (Dumped (JArr [example_account ''org'' ''organization'' 2,
                       example_account ''child1'' ''account'' 0])) \<and>
   py_getitem (example_account ''child1'' ''account'' 0) ''numberOfChildAccounts'' = Inr (JNum 0) \<and>
   py_getitem (example_account ''org'' ''organization'' 2) ''numberOfChildAccounts'' = Inr (JNum 2)"
  by (simp add: example_accounts_file) (simp add: example_account_def py_getitem_def getitem_def)

text \<open>
  The comparison of the identifiers is Python's: a parent with the identifier 1 and a
  row with the identifier \<open>true\<close> match, and the row gets the parent's count.
\<close>

lemma example_numeric_account_ids:
  "parse_account_child
     (JObj [(''accountId'', JNum 1), (''numberOfChildAccounts'', JNum 2)]) []
     (JObj [(''accountId'', JBool True), (''numberOfChildAccounts'', JNum 0)]) =
   Inr [JObj [(''accountId'', JBool True), (''numberOfChildAccounts'', JNum 2)]]"
  by (simp add: parse_account_child_def py_getitem_def py_setitem_def getitem_def)

section \<open>The alert job poller\<close>

lemma has_statusE:
  assumes "has_status s rep"
  obtains j where "rep = Response True (Json j)" "py_contains ''status'' j = Inr True"
    "py_getitem j ''status'' = Inr s"
  using assms
  by (auto simp: has_status_def split: reply.splits content.splits)

lemma poll_ready:
  "poll_alert_job api job (JStr ''READY_TO_DOWNLOAD'') j w =
     Some (case make_api_call api (AlertJobDownload job) w of
             Inl stop \<Rightarrow> Inl stop
           | Inr (api_response, w1) \<Rightarrow>
               Inr ((), write_file AlertsFile (Bytes api_response) w1))"
  by (subst poll_alert_job.simps) (simp split: sum.splits prod.splits)

lemma poll_unexpected:
  assumes "s \<noteq> JStr ''IN_PROGRESS''" "s \<noteq> JStr ''READY_TO_DOWNLOAD''"
  shows "poll_alert_job api job s j w =
     Some (Inr ((), output_msg (ErrorStatusUnexpected j) w))"
  using assms by (subst poll_alert_job.simps) simp

lemma poll_in_progress:
  assumes "api (length (calls w)) = Response True (Json j')"
    and "py_contains ''status'' j' = Inr True"
    and "py_getitem j' ''status'' = Inr s'"
  shows "poll_alert_job api job (JStr ''IN_PROGRESS'') j w =
     poll_alert_job api job s' j'
       ((output_msg (Checking (JStr ''IN_PROGRESS'')) w)
          \<lparr>calls := calls w @ [AlertJobStatus job]\<rparr>)"
  using assms
  by (subst poll_alert_job.simps)
     (simp add: make_api_call_def output_msg_def json_loads_def Let_def)

text \<open>What the statements after the loop do, for a status that ends the loop.\<close>

lemma poll_finished:
  assumes "s \<noteq> JStr ''IN_PROGRESS''"
  shows "\<exists>res. poll_alert_job api job s j w = Some res \<and>
           calls (final_world res) =
             calls w @ (if s = JStr ''READY_TO_DOWNLOAD'' then [AlertJobDownload job] else []) \<and>
           (s \<noteq> JStr ''READY_TO_DOWNLOAD'' \<longrightarrow>
              res = Inr ((), output_msg (ErrorStatusUnexpected j) w))"
proof (cases "s = JStr ''READY_TO_DOWNLOAD''")
  case True
  show ?thesis
    unfolding True poll_ready
    by (cases "api (length (calls w))")
       (auto simp: make_api_call_def final_world_def write_file_def output_msg_def Let_def)
next
  case False
  show ?thesis
    using False by (simp add: poll_unexpected[OF assms False] final_world_def output_msg_def)
qed

text \<open>
  The loop entered with the status \<open>IN_PROGRESS\<close>, when the next \<open>n\<close> status
  responses say \<open>IN_PROGRESS\<close> and the one after them says \<open>s\<close>.
\<close>

lemma poll_loop:
  assumes "\<forall>i < n. has_status (JStr ''IN_PROGRESS'') (api (length (calls w) + i))"
    and "has_status s (api (length (calls w) + n))"
    and "s \<noteq> JStr ''IN_PROGRESS''"
  shows "\<exists>res. poll_alert_job api job (JStr ''IN_PROGRESS'') j w = Some res \<and>
           calls (final_world res) =
             calls w @ replicate (Suc n) (AlertJobStatus job) @
               (if s = JStr ''READY_TO_DOWNLOAD'' then [AlertJobDownload job] else []) \<and>
           (s \<noteq> JStr ''READY_TO_DOWNLOAD'' \<longrightarrow>
              (\<exists>w' jf. res = Inr ((), w') \<and> files w' = files w \<and>
                 printed w' \<noteq> [] \<and> last (printed w') = ErrorStatusUnexpected jf))"
  using assms(1,2)
proof (induction n arbitrary: w j)
  case 0
  from "0.prems"(2) obtain jf where
    rep: "api (length (calls w)) = Response True (Json jf)" and
    c: "py_contains ''status'' jf = Inr True" and g: "py_getitem jf ''status'' = Inr s"
    by (auto elim: has_statusE)
  let ?w1 = "(output_msg (Checking (JStr ''IN_PROGRESS'')) w)
               \<lparr>calls := calls w @ [AlertJobStatus job]\<rparr>"
  from poll_finished[OF assms(3), of api job jf ?w1] obtain res where
    res: "poll_alert_job api job s jf ?w1 = Some res" and
    tr: "calls (final_world res) =
           calls ?w1 @ (if s = JStr ''READY_TO_DOWNLOAD'' then [AlertJobDownload job] else [])" and
    un: "s \<noteq> JStr ''READY_TO_DOWNLOAD'' \<longrightarrow>
           res = Inr ((), output_msg (ErrorStatusUnexpected jf) ?w1)"
    by blast
  have "poll_alert_job api job (JStr ''IN_PROGRESS'') j w = Some res"
    using poll_in_progress[where api = api and w = w and job = job and j = j, OF rep c g] res by simp
  moreover have "calls (final_world res) =
      calls w @ replicate (Suc 0) (AlertJobStatus job) @
        (if s = JStr ''READY_TO_DOWNLOAD'' then [AlertJobDownload job] else [])"
    using tr by simp
  moreover have "s \<noteq> JStr ''READY_TO_DOWNLOAD'' \<longrightarrow>
      (\<exists>w' jf. res = Inr ((), w') \<and> files w' = files w \<and>
         printed w' \<noteq> [] \<and> last (printed w') = ErrorStatusUnexpected jf)"
    using un by (auto simp: output_msg_def)
  ultimately show ?case by blast
next
  case (Suc n)
  from Suc.prems(1) have "has_status (JStr ''IN_PROGRESS'') (api (length (calls w) + 0))"
    by blast
  then obtain j1 where
    rep: "api (length (calls w)) = Response True (Json j1)" and
    c: "py_contains ''status'' j1 = Inr True" and
    g: "py_getitem j1 ''status'' = Inr (JStr ''IN_PROGRESS'')"
    by (auto elim: has_statusE)
  let ?w1 = "(output_msg (Checking (JStr ''IN_PROGRESS'')) w)
               \<lparr>calls := calls w @ [AlertJobStatus job]\<rparr>"
  have len: "length (calls ?w1) = Suc (length (calls w))" by simp
  have p1: "\<forall>i < n. has_status (JStr ''IN_PROGRESS'') (api (length (calls ?w1) + i))"
    using Suc.prems(1) unfolding len by (metis Suc_less_eq add_Suc add_Suc_right)
  have p2: "has_status s (api (length (calls ?w1) + n))"
    using Suc.prems(2) unfolding len by simp
  from Suc.IH[OF p1 p2, of j1] obtain res where
    res: "poll_alert_job api job (JStr ''IN_PROGRESS'') j1 ?w1 = Some res" and
    tr: "calls (final_world res) =
           calls ?w1 @ replicate (Suc n) (AlertJobStatus job) @
             (if s = JStr ''READY_TO_DOWNLOAD'' then [AlertJobDownload job] else [])" and
    un: "s \<noteq> JStr ''READY_TO_DOWNLOAD'' \<longrightarrow>
           (\<exists>w' jf. res = Inr ((), w') \<and> files w' = files ?w1 \<and>
              printed w' \<noteq> [] \<and> last (printed w') = ErrorStatusUnexpected jf)"
    by blast
  have "poll_alert_job api job (JStr ''IN_PROGRESS'') j w = Some res"
    using poll_in_progress[where api = api and w = w and job = job and j = j, OF rep c g] res by simp
  moreover have "calls (final_world res) =
      calls w @ replicate (Suc (Suc n)) (AlertJobStatus job) @
        (if s = JStr ''READY_TO_DOWNLOAD'' then [AlertJobDownload job] else [])"
    using tr by simp
  moreover have "s \<noteq> JStr ''READY_TO_DOWNLOAD'' \<longrightarrow>
      (\<exists>w' jf. res = Inr ((), w') \<and> files w' = files w \<and>
         printed w' \<noteq> [] \<and> last (printed w') = ErrorStatusUnexpected jf)"
    using un by (simp add: output_msg_def)
  ultimately show ?case by blast
qed

text \<open>
  Claim C6. Without the support mode, when the job submission is answered with an
  \<open>id\<close>, the next \<open>n\<close> status responses say \<open>IN_PROGRESS\<close> and the one after them
  says something else, \<open>get_alerts\<close> returns after one submission, exactly \<open>n + 1\<close>
  status requests and then exactly one download request if the last status is
  \<open>READY_TO_DOWNLOAD\<close>, and no download request otherwise; in that case it returns
  without writing the alerts file and the last thing it prints is the report of the
  unexpected status.
\<close>

theorem get_alerts_polls_until_terminal_status:
  assumes mode: "\<not> SUPPORT_API_MODE c"
    and submit: "api (length (calls w)) = Response True (Json j0)"
    and has_id: "py_contains ''id'' j0 = Inr True"
    and job: "py_getitem j0 ''id'' = Inr job"
    and polls: "\<forall>i < n. has_status (JStr ''IN_PROGRESS'') (api (Suc (length (calls w)) + i))"
    and final: "has_status s (api (Suc (length (calls w)) + n))"
    and terminal: "s \<noteq> JStr ''IN_PROGRESS''"
  shows "\<exists>res. get_alerts c api w = Some res \<and>
           calls (final_world res) =
             calls w @ [AlertJobs] @ replicate (Suc n) (AlertJobStatus job) @
               (if s = JStr ''READY_TO_DOWNLOAD'' then [AlertJobDownload job] else []) \<and>
           (s \<noteq> JStr ''READY_TO_DOWNLOAD'' \<longrightarrow>
              (\<exists>w' jf. res = Inr ((), w') \<and> files w' AlertsFile = None \<and>
                 printed w' \<noteq> [] \<and> last (printed w') = ErrorStatusUnexpected jf))"
proof -
  let ?w0 = "delete_file_if_exists AlertsFile w"
  let ?w1 = "?w0\<lparr>calls := calls ?w0 @ [AlertJobs]\<rparr>"
  let ?w2 = "?w1\<lparr>calls := calls ?w1 @ [AlertJobStatus job]\<rparr>"
  have len0: "length (calls ?w0) = length (calls w)" "calls ?w0 = calls w"
    by (simp_all add: delete_file_if_exists_def)
  have len2: "length (calls ?w2) = Suc (Suc (length (calls w)))"
    by (simp add: len0)
  have file2: "files ?w2 AlertsFile = None"
    by (simp add: delete_file_if_exists_def)
  have first: "has_status (if n = 0 then s else JStr ''IN_PROGRESS'')
      (api (Suc (length (calls w))))"
    using polls final by (cases n) auto
  then obtain j1 where
    rep: "api (Suc (length (calls w))) = Response True (Json j1)" and
    c: "py_contains ''status'' j1 = Inr True" and
    g: "py_getitem j1 ''status'' = Inr (if n = 0 then s else JStr ''IN_PROGRESS'')"
    by (auto elim: has_statusE)
  have run: "get_alerts c api w =
      poll_alert_job api job (if n = 0 then s else JStr ''IN_PROGRESS'') j1 ?w2"
    using mode
    by (simp add: get_alerts_def get_alerts_full_def make_api_call_def Let_def len0 submit
        json_loads_def has_id job rep c g)
  show ?thesis
  proof (cases n)
    case 0
    from poll_finished[OF terminal, of api job j1 ?w2] obtain res where
      res: "poll_alert_job api job s j1 ?w2 = Some res" and
      tr: "calls (final_world res) =
           calls ?w2 @ (if s = JStr ''READY_TO_DOWNLOAD'' then [AlertJobDownload job] else [])" and
      un: "s \<noteq> JStr ''READY_TO_DOWNLOAD'' \<longrightarrow>
           res = Inr ((), output_msg (ErrorStatusUnexpected j1) ?w2)"
      by blast
    have "get_alerts c api w = Some res" using run res 0 by simp
    moreover have "calls (final_world res) =
        calls w @ [AlertJobs] @ replicate (Suc n) (AlertJobStatus job) @
          (if s = JStr ''READY_TO_DOWNLOAD'' then [AlertJobDownload job] else [])"
      using tr 0 by (simp add: len0)
    moreover have "s \<noteq> JStr ''READY_TO_DOWNLOAD'' \<longrightarrow>
        (\<exists>w' jf. res = Inr ((), w') \<and> files w' AlertsFile = None \<and>
           printed w' \<noteq> [] \<and> last (printed w') = ErrorStatusUnexpected jf)"
      using un file2 by (auto simp: output_msg_def)
    ultimately show ?thesis by blast
  next
    case (Suc m)
    have p1: "\<forall>i < m. has_status (JStr ''IN_PROGRESS'') (api (length (calls ?w2) + i))"
      using polls unfolding len2 Suc by (metis Suc_less_eq add_Suc add_Suc_right)
    have p2: "has_status s (api (length (calls ?w2) + m))"
      using final unfolding len2 Suc by simp
    from poll_loop[OF p1 p2 terminal, of job j1] obtain res where
      res: "poll_alert_job api job (JStr ''IN_PROGRESS'') j1 ?w2 = Some res" and
      tr: "calls (final_world res) =
           calls ?w2 @ replicate (Suc m) (AlertJobStatus job) @
             (if s = JStr ''READY_TO_DOWNLOAD'' then [AlertJobDownload job] else [])" and
      un: "s \<noteq> JStr ''READY_TO_DOWNLOAD'' \<longrightarrow>
           (\<exists>w' jf. res = Inr ((), w') \<and> files w' = files ?w2 \<and>
              printed w' \<noteq> [] \<and> last (printed w') = ErrorStatusUnexpected jf)"
      by blast
    have "get_alerts c api w = Some res" using run res Suc by simp
    moreover have "calls (final_world res) =
        calls w @ [AlertJobs] @ replicate (Suc n) (AlertJobStatus job) @
          (if s = JStr ''READY_TO_DOWNLOAD'' then [AlertJobDownload job] else [])"
      using tr Suc by (simp add: len0 replicate_app_Cons_same)
    moreover have "s \<noteq> JStr ''READY_TO_DOWNLOAD'' \<longrightarrow>
        (\<exists>w' jf. res = Inr ((), w') \<and> files w' AlertsFile = None \<and>
           printed w' \<noteq> [] \<and> last (printed w') = ErrorStatusUnexpected jf)"
      using un file2 by auto
    ultimately show ?thesis by blast
  qed
qed

text \<open>
  The scenario of the claim: the status responses \<open>IN_PROGRESS\<close>, \<open>IN_PROGRESS\<close>,
  \<open>READY_TO_DOWNLOAD\<close> give three status requests and then one download request.
\<close>

theorem get_alerts_polls_until_terminal_status_witness:
  "\<exists>res. get_alerts \<lparr>RUN_MODE = ''collect'', SUPPORT_API_MODE = False\<rparr>
           (script [ok_json (JObj [(''id'', JStr ''job1'')]),
                    status_reply ''IN_PROGRESS'', status_reply ''IN_PROGRESS'',
                    status_reply ''READY_TO_DOWNLOAD'', ok_json (JArr [])])
           initial_world = Some res \<and>
         calls (final_world res) =
           [AlertJobs, AlertJobStatus (JStr ''job1''), AlertJobStatus (JStr ''job1''),
            AlertJobStatus (JStr ''job1''), AlertJobDownload (JStr ''job1'')]"
proof -
  let ?c = "\<lparr>RUN_MODE = ''collect'', SUPPORT_API_MODE = False\<rparr>"
  let ?api = "script [ok_json (JObj [(''id'', JStr ''job1'')]),
                    status_reply ''IN_PROGRESS'', status_reply ''IN_PROGRESS'',
                    status_reply ''READY_TO_DOWNLOAD'', ok_json (JArr [])]"
  have mode: "\<not> SUPPORT_API_MODE ?c" by simp
  have submit: "?api (length (calls initial_world)) =
      Response True (Json (JObj [(''id'', JStr ''job1'')]))"
    by (simp add: example_defs)
  have has_id: "py_contains ''id'' (JObj [(''id'', JStr ''job1'')]) = Inr True"
    by (simp add: py_contains_def)
  have job: "py_getitem (JObj [(''id'', JStr ''job1'')]) ''id'' = Inr (JStr ''job1'')"
    by (simp add: py_getitem_def getitem_def)
  have polls: "\<forall>i < 2. has_status (JStr ''IN_PROGRESS'')
      (?api (Suc (length (calls initial_world)) + i))"
    by (simp add: example_defs has_status_def py_contains_def py_getitem_def getitem_def
        less_Suc_eq numeral_2_eq_2)
  have final: "has_status (JStr ''READY_TO_DOWNLOAD'')
      (?api (Suc (length (calls initial_world)) + 2))"
    by (simp add: example_defs has_status_def py_contains_def py_getitem_def getitem_def)
  have terminal: "JStr ''READY_TO_DOWNLOAD'' \<noteq> JStr ''IN_PROGRESS''" by simp
  from get_alerts_polls_until_terminal_status[OF mode submit has_id job polls final terminal]
  obtain res where "get_alerts ?c ?api initial_world = Some res"
    and "calls (final_world res) =
      calls initial_world @ [AlertJobs] @ replicate (Suc 2) (AlertJobStatus (JStr ''job1'')) @
        [AlertJobDownload (JStr ''job1'')]"
    by auto
  then show ?thesis
    by (auto simp: initial_world_def numeral_2_eq_2)
qed

section \<open>Exit status of the collect stage\<close>

lemma all_ok_updates [simp]:
  "all_ok api (output_msg m w) = all_ok api w"
  "all_ok api (delete_file_if_exists f w) = all_ok api w"
  "all_ok api (write_file f c w) = all_ok api w"
  by (simp_all add: all_ok_def output_msg_def delete_file_if_exists_def write_file_def)

lemma all_ok_fields [simp]:
  "all_ok api (w\<lparr>printed := p\<rparr>) = all_ok api w"
  "all_ok api (w\<lparr>files := f\<rparr>) = all_ok api w"
  by (simp_all add: all_ok_def)





lemma stops_well_Inr [simp]: "stops_well api (Inr (x, w)) = all_ok api w"
  by (simp add: stops_well_def)

lemma stops_well_Exit [simp]:
  "stops_well api (Inl (Exit n, w)) = (n = 1 \<and> \<not> all_ok api w)"
  by (simp add: stops_well_def)

lemma stops_well_Raised [simp]: "stops_well api (Inl (Raised e, w)) = all_ok api w"
  by (simp add: stops_well_def)















subsection \<open>The run ends unless the job stays in progress forever\<close>








subsection \<open>Malformed responses of the alert job\<close>








text \<open>
  A submission response on which the test \<open>'id' in ...\<close> itself fails is not among them:
  the body \<open>null\<close> is valid JSON and raises a \<open>TypeError\<close> that nothing catches.
\<close>

lemma get_alerts_null_body_raises:
  assumes "\<not> SUPPORT_API_MODE c" and "api (length (calls w)) = Response True (Json JNull)"
  shows "\<exists>w'. get_alerts c api w = Some (Inl (Raised (TypeError ''argument is not iterable''), w'))"
  using assms
  by (simp add: get_alerts_def get_alerts_full_def make_api_call_def json_loads_def
      py_contains_def delete_file_if_exists_def Let_def)

subsection \<open>A whole run over a malformed response of the alert job\<close>






subsection \<open>The claim\<close>





end
